theory Spec2Isabelle
  imports Main "HOL-Library.Sublist" "HOL-Library.Multiset"
begin

section \<open>The JavaScript runtime, as far as the repository tools use it\<close>

text \<open>
  The tools of \<^verbatim>\<open>src/tools/repositories.ts\<close> are TypeScript running on Node.js. Numbers that
  the tools handle (ids, line numbers, \<^verbatim>\<open>top\<close>, \<^verbatim>\<open>skip\<close>) are modelled as \<^typ>\<open>int\<close>: the
  integral values of a JavaScript number. Strings are \<^typ>\<open>string\<close>. An optional property or
  parameter is an \<^typ>\<open>'a option\<close>, \<^term>\<open>None\<close> standing for \<^verbatim>\<open>undefined\<close>.
\<close>

subsection \<open>Truthiness\<close>

text \<open>
  \<^verbatim>\<open>if (x)\<close> on an optional string holds when the string is present and not empty; on an
  optional number when the number is present and not zero; on an optional boolean when it is
  present and true.
\<close>

definition truthy_string :: "string option \<Rightarrow> bool" where
  "truthy_string s = (case s of None \<Rightarrow> False | Some v \<Rightarrow> v \<noteq> [])"

definition truthy_number :: "int option \<Rightarrow> bool" where
  "truthy_number n = (case n of None \<Rightarrow> False | Some v \<Rightarrow> v \<noteq> 0)"

definition truthy_boolean :: "bool option \<Rightarrow> bool" where
  "truthy_boolean b = (case b of None \<Rightarrow> False | Some v \<Rightarrow> v)"

subsection \<open>String methods\<close>

definition startsWith :: "string \<Rightarrow> string \<Rightarrow> bool" where
  "startsWith s pat = prefix pat s"

text \<open>\<^verbatim>\<open>s.replace(pat, rep)\<close> with a string pattern replaces the first occurrence only.\<close>

fun replace :: "string \<Rightarrow> string \<Rightarrow> string \<Rightarrow> string" where
  "replace [] pat rep = (if pat = [] then rep else [])"
| "replace (c # cs) pat rep =
     (if prefix pat (c # cs) then rep @ drop (length pat) (c # cs)
      else c # replace cs pat rep)"

fun string_includes :: "string \<Rightarrow> string \<Rightarrow> bool" where
  "string_includes [] pat = (pat = [])"
| "string_includes (c # cs) pat = (prefix pat (c # cs) \<or> string_includes cs pat)"

text \<open>
  Case mapping, on the letters of ASCII; every other character is left as it is. JavaScript
  also maps the letters outside ASCII, so the model is that of the runtime on ASCII names.
\<close>

definition toUpperCase_char :: "char \<Rightarrow> char" where
  "toUpperCase_char c =
     (case map_of (zip ''abcdefghijklmnopqrstuvwxyz'' ''ABCDEFGHIJKLMNOPQRSTUVWXYZ'') c of
        Some u \<Rightarrow> u
      | None \<Rightarrow> c)"

definition toLowerCase_char :: "char \<Rightarrow> char" where
  "toLowerCase_char c =
     (case map_of (zip ''ABCDEFGHIJKLMNOPQRSTUVWXYZ'' ''abcdefghijklmnopqrstuvwxyz'') c of
        Some l \<Rightarrow> l
      | None \<Rightarrow> c)"

definition toUpperCase :: "string \<Rightarrow> string" where
  "toUpperCase s = map toUpperCase_char s"

definition toLowerCase :: "string \<Rightarrow> string" where
  "toLowerCase s = map toLowerCase_char s"

text \<open>\<^verbatim>\<open>s.charAt(0)\<close> is the first character as a string, or the empty string.\<close>

definition charAt0 :: "string \<Rightarrow> string" where
  "charAt0 s = take 1 s"

text \<open>
  \<^verbatim>\<open>localeCompare\<close> is the collation of the runtime's locale. It is not part of the
  repository, so the tools that sort by name take it as a parameter of this type: a negative
  result when the first string sorts before the second, zero when they collate equal,
  a positive result otherwise.
\<close>

type_synonym localeCompare = "string \<Rightarrow> string \<Rightarrow> int"

text \<open>
  One such comparison, for the sample data: the order of the character codes, a proper
  prefix before the longer string.
\<close>

fun codeCompare :: localeCompare where
  "codeCompare [] [] = 0"
| "codeCompare [] (y # ys) = - 1"
| "codeCompare (x # xs) [] = 1"
| "codeCompare (x # xs) (y # ys) =
     (if (of_char x :: nat) < of_char y then - 1
      else if (of_char y :: nat) < of_char x then 1
      else codeCompare xs ys)"

subsection \<open>Array.prototype.slice\<close>

text \<open>
  A negative index counts from the end; both indices are clamped to the array, and an end
  before the start gives the empty array.
\<close>

definition relative_index :: "nat \<Rightarrow> int \<Rightarrow> nat" where
  "relative_index len i = (if i < 0 then nat (max (int len + i) 0) else min (nat i) len)"

definition slice :: "'a list \<Rightarrow> int \<Rightarrow> int \<Rightarrow> 'a list" where
  "slice xs start fin =
     (let k = relative_index (length xs) start;
          final = relative_index (length xs) fin
      in take (final - k) (drop k xs))"

subsection \<open>Array.prototype.sort with a comparator\<close>

text \<open>
  ECMAScript fixes the result of \<^verbatim>\<open>sort\<close> only for a consistent comparator: then it is the
  stable sort. Otherwise the order is implementation-defined. The model is what Node.js (V8)
  runs on an array of fewer than 64 elements: the leading run is counted, reversed when it is
  strictly descending, and every later element is put into the sorted prefix by a binary
  search (array-sort.tq: CountAndMakeRun, BinaryInsertionSort). On longer arrays V8 merges
  several such runs; for a consistent comparator that gives the same, stable, result.
\<close>

type_synonym 'a comparefn = "'a \<Rightarrow> 'a \<Rightarrow> int"

definition consistent :: "'a comparefn \<Rightarrow> 'a set \<Rightarrow> bool" where
  "consistent cmp S =
     ((\<forall>a\<in>S. \<forall>b\<in>S. (cmp a b < 0) = (0 < cmp b a)) \<and>
      (\<forall>a\<in>S. \<forall>b\<in>S. \<forall>c\<in>S. cmp a b \<le> 0 \<longrightarrow> cmp b c \<le> 0 \<longrightarrow> cmp a c \<le> 0))"

fun count_ascending :: "'a comparefn \<Rightarrow> 'a \<Rightarrow> 'a list \<Rightarrow> nat" where
  "count_ascending cmp previous [] = 0"
| "count_ascending cmp previous (x # xs) =
     (if cmp x previous < 0 then 0 else Suc (count_ascending cmp x xs))"

fun count_descending :: "'a comparefn \<Rightarrow> 'a \<Rightarrow> 'a list \<Rightarrow> nat" where
  "count_descending cmp previous [] = 0"
| "count_descending cmp previous (x # xs) =
     (if cmp x previous < 0 then Suc (count_descending cmp x xs) else 0)"

text \<open>The run, made ascending, and the elements after it.\<close>

fun CountAndMakeRun :: "'a comparefn \<Rightarrow> 'a list \<Rightarrow> 'a list \<times> 'a list" where
  "CountAndMakeRun cmp [] = ([], [])"
| "CountAndMakeRun cmp [x] = ([x], [])"
| "CountAndMakeRun cmp (x0 # x1 # rest) =
     (if cmp x1 x0 < 0
      then (let n = 2 + count_descending cmp x1 rest
            in (rev (take n (x0 # x1 # rest)), drop n (x0 # x1 # rest)))
      else (let n = 2 + count_ascending cmp x1 rest
            in (take n (x0 # x1 # rest), drop n (x0 # x1 # rest))))"

function find_insertion_point :: "'a comparefn \<Rightarrow> 'a \<Rightarrow> 'a list \<Rightarrow> nat \<Rightarrow> nat \<Rightarrow> nat" where
  "find_insertion_point cmp pivot ws left right =
     (if left < right
      then (let mid = left + (right - left) div 2
            in if cmp pivot (ws ! mid) < 0
               then find_insertion_point cmp pivot ws left mid
               else find_insertion_point cmp pivot ws (mid + 1) right)
      else left)"
  by pat_completeness auto
termination
  by (relation "measure (\<lambda>(cmp, pivot, ws, left, right). right - left)") auto

declare find_insertion_point.simps [simp del]

fun BinaryInsertionSort :: "'a comparefn \<Rightarrow> 'a list \<Rightarrow> 'a list \<Rightarrow> 'a list" where
  "BinaryInsertionSort cmp sorted_prefix [] = sorted_prefix"
| "BinaryInsertionSort cmp sorted_prefix (pivot # rest) =
     (let left = find_insertion_point cmp pivot sorted_prefix 0 (length sorted_prefix)
      in BinaryInsertionSort cmp
           (take left sorted_prefix @ pivot # drop left sorted_prefix) rest)"

definition Array_sort :: "'a comparefn \<Rightarrow> 'a list \<Rightarrow> 'a list" where
  "Array_sort cmp xs =
     (if length xs < 2 then xs
      else (case CountAndMakeRun cmp xs of (run, rest) \<Rightarrow> BinaryInsertionSort cmp run rest))"


section \<open>The data of the hosting service\<close>

text \<open>
  The entities are the interfaces of the client library (\<^verbatim>\<open>azure-devops-node-api\<close>); every
  property is optional there. A record keeps the properties the tools read and a few of the
  others, which stand for what only a full response carries.
\<close>

record IdentityRef =
  displayName :: "string option"
  uniqueName :: "string option"
  identity_id :: "string option"

record GitRef =
  ref_name :: "string option"
  ref_objectId :: "string option"
  ref_creator :: "IdentityRef option"

record GitRepository =
  r_id :: "string option"
  r_name :: "string option"
  r_isDisabled :: "bool option"
  r_isFork :: "bool option"
  r_isInMaintenance :: "bool option"
  r_webUrl :: "string option"
  r_size :: "int option"
  r_defaultBranch :: "string option"
  r_remoteUrl :: "string option"

datatype PullRequestStatus = NotSet | Active | Abandoned | Completed | All

record GitPullRequest =
  pr_pullRequestId :: "int option"
  pr_codeReviewId :: "int option"
  pr_repository :: "GitRepository option"
  pr_status :: "PullRequestStatus option"
  pr_createdBy :: "IdentityRef option"
  pr_creationDate :: "string option"
  pr_title :: "string option"
  pr_description :: "string option"
  pr_isDraft :: "bool option"
  pr_sourceRefName :: "string option"
  pr_targetRefName :: "string option"

datatype CommentType = Unknown_type | Text | CodeChange | System

record Comment =
  c_id :: "int option"
  c_parentCommentId :: "int option"
  c_author :: "IdentityRef option"
  c_content :: "string option"
  c_publishedDate :: "string option"
  c_lastUpdatedDate :: "string option"
  c_lastContentUpdatedDate :: "string option"
  c_commentType :: "CommentType option"
  c_isDeleted :: "bool option"

datatype CommentThreadStatus = Unknown | Active_thread | Fixed | WontFix | Closed | ByDesign | Pending

record CommentPosition =
  line :: "int option"
  offset :: "int option"

record CommentThreadContext =
  filePath :: "string option"
  leftFileStart :: "CommentPosition option"
  leftFileEnd :: "CommentPosition option"
  rightFileStart :: "CommentPosition option"
  rightFileEnd :: "CommentPosition option"

record CommentThread =
  t_id :: "int option"
  t_publishedDate :: "string option"
  t_lastUpdatedDate :: "string option"
  t_status :: "CommentThreadStatus option"
  t_threadContext :: "CommentThreadContext option"
  t_comments :: "Comment list option"
  t_isDeleted :: "bool option"

datatype GitVersionType = Branch | Tag | Commit

record GitVersionDescriptor =
  version :: "string option"
  versionType :: "GitVersionType option"

record GitQueryCommitsCriteria =
  fromCommitId :: "string option"
  toCommitId :: "string option"
  includeLinks :: "bool option"
  includeWorkItems :: "bool option"
  itemVersion :: "GitVersionDescriptor option"

text \<open>
  The search criteria of the two pull request listings are object literals of the source; the
  status number is kept as the enum member it is the value of.
\<close>

record PullRequestSearchCriteria =
  sc_status :: PullRequestStatus
  sc_repositoryId :: string
  sc_creatorId :: "string option"
  sc_reviewerId :: "string option"

record ProjectPullRequestSearchCriteria =
  psc_status :: PullRequestStatus
  psc_creatorId :: "string option"
  psc_reviewerId :: "string option"

record GitCommitRef =
  commitId :: "string option"
  commit_comment :: "string option"

datatype GitPullRequestQueryType = NotSet_query | LastMergeCommit | Commit_query

record GitPullRequestQueryInput =
  items :: "string list option"
  query_type :: "GitPullRequestQueryType option"

record GitPullRequestQuery =
  queries :: "GitPullRequestQueryInput list option"
  results :: "(string \<times> GitPullRequest list) list list option"

text \<open>
  The keys of the library's enums, as \<^verbatim>\<open>E[key]\<close> reads them: the member of that name, or
  \<^verbatim>\<open>undefined\<close>.
\<close>

definition CommentThreadStatus_of_key :: "string \<Rightarrow> CommentThreadStatus option" where
  "CommentThreadStatus_of_key key =
     map_of [(''Unknown'', Unknown), (''Active'', Active_thread), (''Fixed'', Fixed),
             (''WontFix'', WontFix), (''Closed'', Closed), (''ByDesign'', ByDesign),
             (''Pending'', Pending)] key"

definition GitVersionType_of_key :: "string \<Rightarrow> GitVersionType option" where
  "GitVersionType_of_key key =
     map_of [(''Branch'', Branch), (''Tag'', Tag), (''Commit'', Commit)] key"

definition GitPullRequestQueryType_of_key :: "string \<Rightarrow> GitPullRequestQueryType option" where
  "GitPullRequestQueryType_of_key key =
     map_of [(''NotSet'', NotSet_query), (''LastMergeCommit'', LastMergeCommit),
             (''Commit'', Commit_query)] key"

subsection \<open>The minimal schemas\<close>

record TrimmedAuthor =
  ta_displayName :: "string option"
  ta_uniqueName :: "string option"

record TrimmedRepository =
  tr_id :: "string option"
  tr_name :: "string option"
  tr_isDisabled :: "bool option"
  tr_isFork :: "bool option"
  tr_isInMaintenance :: "bool option"
  tr_webUrl :: "string option"
  tr_size :: "int option"

record TrimmedPullRequest =
  tpr_pullRequestId :: "int option"
  tpr_codeReviewId :: "int option"
  tpr_status :: "PullRequestStatus option"
  tpr_createdBy :: TrimmedAuthor
  tpr_creationDate :: "string option"
  tpr_title :: "string option"
  tpr_isDraft :: "bool option"
  tpr_sourceRefName :: "string option"
  tpr_targetRefName :: "string option"

record TrimmedProjectPullRequest = TrimmedPullRequest +
  tpr_repository :: "string option"

record TrimmedComment =
  tc_id :: "int option"
  tc_author :: TrimmedAuthor
  tc_content :: "string option"
  tc_publishedDate :: "string option"
  tc_lastUpdatedDate :: "string option"
  tc_lastContentUpdatedDate :: "string option"

record TrimmedThread =
  tt_id :: "int option"
  tt_publishedDate :: "string option"
  tt_lastUpdatedDate :: "string option"
  tt_status :: "CommentThreadStatus option"
  tt_threadContext :: "CommentThreadContext option"
  tt_comments :: "TrimmedComment list option"

record CreatedComment =
  cc_id :: "int option"
  cc_author :: TrimmedAuthor
  cc_content :: "string option"
  cc_publishedDate :: "string option"
  cc_threadId :: int

record CreatedThread =
  ct_id :: "int option"
  ct_status :: "CommentThreadStatus option"
  ct_threadContext :: "CommentThreadContext option"
  ct_comments :: "TrimmedComment list option"

text \<open>What a tool answers with a \<^verbatim>\<open>fullResponse\<close> flag: the backend objects or the minimal ones.\<close>

datatype ('full, 'minimal) projection = Full 'full | Minimal 'minimal


section \<open>Calls, errors and the response envelope\<close>

text \<open>
  An awaited call either rejects with an error, kept as its message, or fulfils with a value.
  A tool handler either throws (the rejection of an awaited call it does not guard, or its own
  \<^verbatim>\<open>throw\<close>) or returns an envelope: one text item, the pretty-printed JSON of a document or
  a message, and the \<^verbatim>\<open>isError\<close> flag (absent on success, here \<^term>\<open>False\<close>).
\<close>

datatype 'a settled = Rejected string | Fulfilled 'a

datatype 'a payload = Json 'a | Message string

record 'a envelope =
  content :: "'a payload"
  isError :: bool

datatype 'a outcome = Throws string | Returns "'a envelope"

definition await :: "'a settled \<Rightarrow> ('a \<Rightarrow> 'b outcome) \<Rightarrow> 'b outcome" where
  "await call continue = (case call of Rejected e \<Rightarrow> Throws e | Fulfilled v \<Rightarrow> continue v)"

definition try_catch :: "'a outcome \<Rightarrow> (string \<Rightarrow> 'a outcome) \<Rightarrow> 'a outcome" where
  "try_catch body handler = (case body of Throws e \<Rightarrow> handler e | Returns r \<Rightarrow> Returns r)"

definition json_result :: "'a \<Rightarrow> 'a outcome" where
  "json_result document = Returns \<lparr>content = Json document, isError = False\<rparr>"

definition error_result :: "string \<Rightarrow> 'a outcome" where
  "error_result message = Returns \<lparr>content = Message message, isError = True\<rparr>"

text \<open>
  The collaborators of the tools: the client of the hosting service, with the arguments each
  tool passes, and the identity lookups of \<^verbatim>\<open>auth.ts\<close>. \<^verbatim>\<open>connectionProvider\<close> stands for the
  connection and its \<^verbatim>\<open>getGitApi\<close>; \<^verbatim>\<open>getCurrentUserDetails\<close> for the id of the authenticated
  user it reports.
\<close>

record IGitApi =
  getRepositories ::
    "string \<Rightarrow> bool option \<Rightarrow> bool option \<Rightarrow> bool option \<Rightarrow> GitRepository list option settled"
  getPullRequests ::
    "string \<Rightarrow> PullRequestSearchCriteria \<Rightarrow> int \<Rightarrow> int \<Rightarrow> GitPullRequest list option settled"
  getPullRequestsByProject ::
    "string \<Rightarrow> ProjectPullRequestSearchCriteria \<Rightarrow> int \<Rightarrow> int
       \<Rightarrow> GitPullRequest list option settled"
  getThreads ::
    "string \<Rightarrow> int \<Rightarrow> string option \<Rightarrow> int option \<Rightarrow> int option
       \<Rightarrow> CommentThread list option settled"
  getComments :: "string \<Rightarrow> int \<Rightarrow> int \<Rightarrow> string option \<Rightarrow> Comment list option settled"
  getRefs ::
    "string \<Rightarrow> string \<Rightarrow> bool option \<Rightarrow> bool option \<Rightarrow> bool option \<Rightarrow> bool option
       \<Rightarrow> string option \<Rightarrow> GitRef list option settled"
  getPullRequest :: "string \<Rightarrow> int \<Rightarrow> bool \<Rightarrow> GitPullRequest option settled"
  getCommits ::
    "string \<Rightarrow> GitQueryCommitsCriteria \<Rightarrow> string \<Rightarrow> int \<Rightarrow> int
       \<Rightarrow> GitCommitRef list option settled"
  getPullRequestQuery ::
    "GitPullRequestQuery \<Rightarrow> string \<Rightarrow> string \<Rightarrow> GitPullRequestQuery option settled"
  createComment :: "Comment \<Rightarrow> string \<Rightarrow> int \<Rightarrow> int \<Rightarrow> string option \<Rightarrow> Comment settled"
  createThread :: "CommentThread \<Rightarrow> string \<Rightarrow> int \<Rightarrow> string option \<Rightarrow> CommentThread settled"

record providers =
  connectionProvider :: "IGitApi settled"
  getUserIdFromEmail :: "string \<Rightarrow> string settled"
  getCurrentUserDetails :: "string settled"

section \<open>The helpers of the repository tools\<close>

text \<open>\<^verbatim>\<open>branchesFilterOutIrrelevantProperties\<close>: the short names of the branches, sorted, at most \<^verbatim>\<open>top\<close>.\<close>

definition branchesFilterOutIrrelevantProperties ::
    "localeCompare \<Rightarrow> GitRef list option \<Rightarrow> int \<Rightarrow> string list option" where
  "branchesFilterOutIrrelevantProperties localeCompare branches topN =
     map_option
       (\<lambda>refs.
          slice
            (Array_sort (\<lambda>a b. localeCompare b a)
               (map (\<lambda>branch. replace branch ''refs/heads/'' [])
                  (filter (\<lambda>branch. startsWith branch ''refs/heads/'')
                     (concat
                        (map (\<lambda>branch. if truthy_string (ref_name branch)
                                         then [the (ref_name branch)] else [])
                           refs)))))
            0 topN)
       branches"

definition trimAuthor :: "IdentityRef option \<Rightarrow> TrimmedAuthor" where
  "trimAuthor author =
     \<lparr>ta_displayName = Option.bind author displayName,
      ta_uniqueName = Option.bind author uniqueName\<rparr>"

text \<open>\<^verbatim>\<open>trimComments\<close>: the comments that are not deleted, each in the minimal schema.\<close>

definition trimComment :: "Comment \<Rightarrow> TrimmedComment" where
  "trimComment comment =
     \<lparr>tc_id = c_id comment,
      tc_author = trimAuthor (c_author comment),
      tc_content = c_content comment,
      tc_publishedDate = c_publishedDate comment,
      tc_lastUpdatedDate = c_lastUpdatedDate comment,
      tc_lastContentUpdatedDate = c_lastContentUpdatedDate comment\<rparr>"

definition trimComments :: "Comment list option \<Rightarrow> TrimmedComment list option" where
  "trimComments comments =
     map_option
       (\<lambda>cs. map trimComment (filter (\<lambda>comment. \<not> truthy_boolean (c_isDeleted comment)) cs))
       comments"

definition pullRequestStatusStringToInt :: "string \<Rightarrow> string + PullRequestStatus" where
  "pullRequestStatusStringToInt status =
     (if status = ''Abandoned'' then Inr Abandoned
      else if status = ''Active'' then Inr Active
      else if status = ''All'' then Inr All
      else if status = ''Completed'' then Inr Completed
      else if status = ''NotSet'' then Inr NotSet
      else Inl (''Unknown pull request status: '' @ status))"

definition filterReposByName ::
    "GitRepository list option \<Rightarrow> string \<Rightarrow> GitRepository list option" where
  "filterReposByName repositories repoNameFilter =
     (let lowerCaseFilter = toLowerCase repoNameFilter
      in map_option
           (filter (\<lambda>repo. case r_name repo of
                              None \<Rightarrow> False
                            | Some n \<Rightarrow> string_includes (toLowerCase n) lowerCaseFilter))
           repositories)"

text \<open>
  The comparators the tools hand to \<^verbatim>\<open>sort\<close>:
  \<^verbatim>\<open>(a, b) => a.name?.localeCompare(b.name ?? "") ?? 0\<close> for repositories and
  \<^verbatim>\<open>(a, b) => (a.id ?? 0) - (b.id ?? 0)\<close> for threads and comments.
\<close>

definition compare_repository_names :: "localeCompare \<Rightarrow> GitRepository comparefn" where
  "compare_repository_names localeCompare a b =
     (case r_name a of
        None \<Rightarrow> 0
      | Some a_name \<Rightarrow> localeCompare a_name (case r_name b of None \<Rightarrow> [] | Some b_name \<Rightarrow> b_name))"

definition compare_ids :: "('a \<Rightarrow> int option) \<Rightarrow> 'a comparefn" where
  "compare_ids id_of a b =
     (case id_of a of None \<Rightarrow> 0 | Some i \<Rightarrow> i) - (case id_of b of None \<Rightarrow> 0 | Some i \<Rightarrow> i)"

definition trimRepository :: "GitRepository \<Rightarrow> TrimmedRepository" where
  "trimRepository repo =
     \<lparr>tr_id = r_id repo, tr_name = r_name repo, tr_isDisabled = r_isDisabled repo,
      tr_isFork = r_isFork repo, tr_isInMaintenance = r_isInMaintenance repo,
      tr_webUrl = r_webUrl repo, tr_size = r_size repo\<rparr>"

definition trimPullRequest :: "GitPullRequest \<Rightarrow> TrimmedPullRequest" where
  "trimPullRequest pr =
     \<lparr>tpr_pullRequestId = pr_pullRequestId pr, tpr_codeReviewId = pr_codeReviewId pr,
      tpr_status = pr_status pr, tpr_createdBy = trimAuthor (pr_createdBy pr),
      tpr_creationDate = pr_creationDate pr, tpr_title = pr_title pr,
      tpr_isDraft = pr_isDraft pr, tpr_sourceRefName = pr_sourceRefName pr,
      tpr_targetRefName = pr_targetRefName pr\<rparr>"

definition trimProjectPullRequest :: "GitPullRequest \<Rightarrow> TrimmedProjectPullRequest" where
  "trimProjectPullRequest pr =
     \<lparr>tpr_pullRequestId = pr_pullRequestId pr, tpr_codeReviewId = pr_codeReviewId pr,
      tpr_status = pr_status pr, tpr_createdBy = trimAuthor (pr_createdBy pr),
      tpr_creationDate = pr_creationDate pr, tpr_title = pr_title pr,
      tpr_isDraft = pr_isDraft pr, tpr_sourceRefName = pr_sourceRefName pr,
      tpr_targetRefName = pr_targetRefName pr,
      tpr_repository = Option.bind (pr_repository pr) r_name\<rparr>"

definition trimThread :: "CommentThread \<Rightarrow> TrimmedThread" where
  "trimThread thread =
     \<lparr>tt_id = t_id thread, tt_publishedDate = t_publishedDate thread,
      tt_lastUpdatedDate = t_lastUpdatedDate thread, tt_status = t_status thread,
      tt_threadContext = t_threadContext thread,
      tt_comments = trimComments (t_comments thread)\<rparr>"

section \<open>The tools\<close>

text \<open>
  Each handler of \<^verbatim>\<open>configureRepoTools\<close> is a function of the providers and of its
  parameters as the schema hands them over, defaults filled in. The parameter \<^verbatim>\<open>top\<close> is
  written \<open>topN\<close>.
\<close>

definition list_repos_by_project ::
    "localeCompare \<Rightarrow> providers \<Rightarrow> string \<Rightarrow> int \<Rightarrow> int \<Rightarrow> string option
       \<Rightarrow> TrimmedRepository list option outcome" where
  "list_repos_by_project localeCompare env project topN skip repoNameFilter =
     await (connectionProvider env) (\<lambda>gitApi.
     await (getRepositories gitApi project (Some False) (Some False) (Some False)) (\<lambda>repositories.
       let filteredRepositories =
             (if truthy_string repoNameFilter
              then filterReposByName repositories (the repoNameFilter)
              else repositories);
           paginatedRepositories =
             map_option
               (\<lambda>repos. slice (Array_sort (compare_repository_names localeCompare) repos)
                          skip (skip + topN))
               filteredRepositories;
           trimmedRepositories = map_option (map trimRepository) paginatedRepositories
       in json_result trimmedRepositories))"

text \<open>
  The search criteria of \<^verbatim>\<open>list_pull_requests_by_repo\<close>, as the handler builds them before it
  calls \<^verbatim>\<open>getPullRequests\<close>: on the left the handler has already thrown or returned, on the
  right are the criteria it goes on with.
\<close>

definition list_pull_requests_by_repo_criteria ::
    "providers \<Rightarrow> string \<Rightarrow> bool \<Rightarrow> string option \<Rightarrow> bool \<Rightarrow> string
       \<Rightarrow> 'a outcome + PullRequestSearchCriteria" where
  "list_pull_requests_by_repo_criteria env repositoryId created_by_me created_by_user
       i_am_reviewer status =
     (case pullRequestStatusStringToInt status of
        Inl error \<Rightarrow> Inl (Throws error)
      | Inr status_value \<Rightarrow>
          (let searchCriteria =
                 \<lparr>sc_status = status_value, sc_repositoryId = repositoryId,
                  sc_creatorId = None, sc_reviewerId = None\<rparr>
           in if truthy_string created_by_user
              then (case getUserIdFromEmail env (the created_by_user) of
                      Fulfilled userId \<Rightarrow> Inr (searchCriteria\<lparr>sc_creatorId := Some userId\<rparr>)
                    | Rejected error \<Rightarrow>
                        Inl (error_result
                               (''Error finding user with email '' @ the created_by_user
                                  @ '': '' @ error)))
              else if created_by_me \<or> i_am_reviewer
              then (case getCurrentUserDetails env of
                      Rejected error \<Rightarrow> Inl (Throws error)
                    | Fulfilled userId \<Rightarrow>
                        (let with_creator =
                               (if created_by_me
                                then searchCriteria\<lparr>sc_creatorId := Some userId\<rparr>
                                else searchCriteria)
                         in Inr (if i_am_reviewer
                                 then with_creator\<lparr>sc_reviewerId := Some userId\<rparr>
                                 else with_creator)))
              else Inr searchCriteria))"

definition list_pull_requests_by_repo ::
    "providers \<Rightarrow> string \<Rightarrow> int \<Rightarrow> int \<Rightarrow> bool \<Rightarrow> string option \<Rightarrow> bool \<Rightarrow> string
       \<Rightarrow> TrimmedPullRequest list option outcome" where
  "list_pull_requests_by_repo env repositoryId topN skip created_by_me created_by_user
       i_am_reviewer status =
     await (connectionProvider env) (\<lambda>gitApi.
       case list_pull_requests_by_repo_criteria env repositoryId created_by_me created_by_user
              i_am_reviewer status of
         Inl left \<Rightarrow> left
       | Inr searchCriteria \<Rightarrow>
           await (getPullRequests gitApi repositoryId searchCriteria skip topN) (\<lambda>pullRequests.
             json_result (map_option (map trimPullRequest) pullRequests)))"

definition list_pull_requests_by_project_criteria ::
    "providers \<Rightarrow> bool \<Rightarrow> string option \<Rightarrow> bool \<Rightarrow> string
       \<Rightarrow> 'a outcome + ProjectPullRequestSearchCriteria" where
  "list_pull_requests_by_project_criteria env created_by_me created_by_user i_am_reviewer status =
     (case pullRequestStatusStringToInt status of
        Inl error \<Rightarrow> Inl (Throws error)
      | Inr status_value \<Rightarrow>
          (let gitPullRequestSearchCriteria =
                 \<lparr>psc_status = status_value, psc_creatorId = None, psc_reviewerId = None\<rparr>
           in if truthy_string created_by_user
              then (case getUserIdFromEmail env (the created_by_user) of
                      Fulfilled userId \<Rightarrow>
                        Inr (gitPullRequestSearchCriteria\<lparr>psc_creatorId := Some userId\<rparr>)
                    | Rejected error \<Rightarrow>
                        Inl (error_result
                               (''Error finding user with email '' @ the created_by_user
                                  @ '': '' @ error)))
              else if created_by_me \<or> i_am_reviewer
              then (case getCurrentUserDetails env of
                      Rejected error \<Rightarrow> Inl (Throws error)
                    | Fulfilled userId \<Rightarrow>
                        (let with_creator =
                               (if created_by_me
                                then gitPullRequestSearchCriteria\<lparr>psc_creatorId := Some userId\<rparr>
                                else gitPullRequestSearchCriteria)
                         in Inr (if i_am_reviewer
                                 then with_creator\<lparr>psc_reviewerId := Some userId\<rparr>
                                 else with_creator)))
              else Inr gitPullRequestSearchCriteria))"

definition list_pull_requests_by_project ::
    "providers \<Rightarrow> string \<Rightarrow> int \<Rightarrow> int \<Rightarrow> bool \<Rightarrow> string option \<Rightarrow> bool \<Rightarrow> string
       \<Rightarrow> TrimmedProjectPullRequest list option outcome" where
  "list_pull_requests_by_project env project topN skip created_by_me created_by_user
       i_am_reviewer status =
     await (connectionProvider env) (\<lambda>gitApi.
       case list_pull_requests_by_project_criteria env created_by_me created_by_user
              i_am_reviewer status of
         Inl left \<Rightarrow> left
       | Inr gitPullRequestSearchCriteria \<Rightarrow>
           await (getPullRequestsByProject gitApi project gitPullRequestSearchCriteria skip topN)
             (\<lambda>pullRequests. json_result (map_option (map trimProjectPullRequest) pullRequests)))"

definition list_pull_request_threads ::
    "providers \<Rightarrow> string \<Rightarrow> int \<Rightarrow> string option \<Rightarrow> int option \<Rightarrow> int option \<Rightarrow> int \<Rightarrow> int \<Rightarrow> bool
       \<Rightarrow> (CommentThread list option, TrimmedThread list option) projection outcome" where
  "list_pull_request_threads env repositoryId pullRequestId project iteration baseIteration
       topN skip fullResponse =
     await (connectionProvider env) (\<lambda>gitApi.
     await (getThreads gitApi repositoryId pullRequestId project iteration baseIteration) (\<lambda>threads.
       let paginatedThreads =
             map_option (\<lambda>ts. slice (Array_sort (compare_ids t_id) ts) skip (skip + topN)) threads
       in if fullResponse
          then json_result (Full paginatedThreads)
          else json_result (Minimal (map_option (map trimThread) paginatedThreads))))"

definition list_pull_request_thread_comments ::
    "providers \<Rightarrow> string \<Rightarrow> int \<Rightarrow> int \<Rightarrow> string option \<Rightarrow> int \<Rightarrow> int \<Rightarrow> bool
       \<Rightarrow> (Comment list option, TrimmedComment list option) projection outcome" where
  "list_pull_request_thread_comments env repositoryId pullRequestId threadId project
       topN skip fullResponse =
     await (connectionProvider env) (\<lambda>gitApi.
     await (getComments gitApi repositoryId pullRequestId threadId project) (\<lambda>comments.
       let paginatedComments =
             map_option (\<lambda>cs. slice (Array_sort (compare_ids c_id) cs) skip (skip + topN)) comments
       in if fullResponse
          then json_result (Full paginatedComments)
          else json_result (Minimal (trimComments paginatedComments))))"

definition list_branches_by_repo ::
    "localeCompare \<Rightarrow> providers \<Rightarrow> string \<Rightarrow> int \<Rightarrow> string option \<Rightarrow> string list option outcome" where
  "list_branches_by_repo localeCompare env repositoryId topN filterContains =
     await (connectionProvider env) (\<lambda>gitApi.
     await (getRefs gitApi repositoryId ''heads/'' None None None None filterContains) (\<lambda>branches.
       json_result (branchesFilterOutIrrelevantProperties localeCompare branches topN)))"

definition list_my_branches_by_repo ::
    "localeCompare \<Rightarrow> providers \<Rightarrow> string \<Rightarrow> int \<Rightarrow> string option \<Rightarrow> string list option outcome" where
  "list_my_branches_by_repo localeCompare env repositoryId topN filterContains =
     await (connectionProvider env) (\<lambda>gitApi.
     await (getRefs gitApi repositoryId ''heads/'' None None (Some True) None filterContains)
       (\<lambda>branches.
          json_result (branchesFilterOutIrrelevantProperties localeCompare branches topN)))"

definition get_repo_by_name_or_id :: "providers \<Rightarrow> string \<Rightarrow> string \<Rightarrow> GitRepository outcome" where
  "get_repo_by_name_or_id env project repositoryNameOrId =
     await (connectionProvider env) (\<lambda>gitApi.
     await (getRepositories gitApi project None None None) (\<lambda>repositories.
       case Option.bind repositories
              (find (\<lambda>repo. r_name repo = Some repositoryNameOrId
                           \<or> r_id repo = Some repositoryNameOrId)) of
         None \<Rightarrow>
           Throws (''Repository '' @ repositoryNameOrId @ '' not found in project '' @ project)
       | Some repository \<Rightarrow> json_result repository))"

text \<open>
  \<^verbatim>\<open>get_branch_by_name\<close> reads \<^verbatim>\<open>branches.find\<close> with no guard: on an undefined list the
  runtime throws a TypeError.
\<close>

definition get_branch_by_name :: "providers \<Rightarrow> string \<Rightarrow> string \<Rightarrow> GitRef outcome" where
  "get_branch_by_name env repositoryId branchName =
     await (connectionProvider env) (\<lambda>gitApi.
     await (getRefs gitApi repositoryId ''heads/'' (Some False) (Some False) None (Some False)
              (Some branchName)) (\<lambda>branches.
       case branches of
         None \<Rightarrow> Throws ''Cannot read properties of undefined (reading 'find')''
       | Some refs \<Rightarrow>
           (case find (\<lambda>branch. ref_name branch = Some (''refs/heads/'' @ branchName)
                               \<or> ref_name branch = Some branchName) refs of
              None \<Rightarrow>
                error_result
                  (''Branch '' @ branchName @ '' not found in repository '' @ repositoryId)
            | Some branch \<Rightarrow> json_result branch)))"

definition get_pull_request_by_id ::
    "providers \<Rightarrow> string \<Rightarrow> int \<Rightarrow> bool \<Rightarrow> GitPullRequest option outcome" where
  "get_pull_request_by_id env repositoryId pullRequestId includeWorkItemRefs =
     await (connectionProvider env) (\<lambda>gitApi.
     await (getPullRequest gitApi repositoryId pullRequestId includeWorkItemRefs) (\<lambda>pullRequest.
       json_result pullRequest))"

text \<open>The commit search criteria of \<^verbatim>\<open>search_commits\<close>, as the handler builds them.\<close>

definition search_commits_criteria ::
    "string option \<Rightarrow> string option \<Rightarrow> string option \<Rightarrow> string \<Rightarrow> bool \<Rightarrow> bool
       \<Rightarrow> GitQueryCommitsCriteria" where
  "search_commits_criteria fromCommit toCommit version_name version_type include_links
       include_work_items =
     (let searchCriteria =
            \<lparr>fromCommitId = fromCommit, toCommitId = toCommit,
             includeLinks = Some include_links, includeWorkItems = Some include_work_items,
             itemVersion = None\<rparr>
      in if truthy_string version_name
         then searchCriteria
                \<lparr>itemVersion :=
                   Some \<lparr>version = version_name,
                         versionType = GitVersionType_of_key version_type\<rparr>\<rparr>
         else searchCriteria)"

definition search_commits ::
    "providers \<Rightarrow> string \<Rightarrow> string \<Rightarrow> string option \<Rightarrow> string option \<Rightarrow> string option \<Rightarrow> string
       \<Rightarrow> int \<Rightarrow> int \<Rightarrow> bool \<Rightarrow> bool \<Rightarrow> GitCommitRef list option outcome" where
  "search_commits env project repository fromCommit toCommit version_name version_type skip topN
       include_links include_work_items =
     try_catch
       (await (connectionProvider env) (\<lambda>gitApi.
        await (getCommits gitApi repository
                 (search_commits_criteria fromCommit toCommit version_name version_type
                    include_links include_work_items)
                 project skip topN) (\<lambda>commits.
          json_result commits)))
       (\<lambda>error. error_result (''Error searching commits: '' @ error))"

definition list_pull_requests_by_commits ::
    "providers \<Rightarrow> string \<Rightarrow> string \<Rightarrow> string list \<Rightarrow> string \<Rightarrow> GitPullRequestQuery option outcome" where
  "list_pull_requests_by_commits env project repository commits queryType =
     try_catch
       (await (connectionProvider env) (\<lambda>gitApi.
          let query =
                \<lparr>queries =
                   Some [\<lparr>items = Some commits,
                          query_type = GitPullRequestQueryType_of_key queryType\<rparr>],
                 results = None\<rparr>
          in await (getPullRequestQuery gitApi query repository project) (\<lambda>queryResult.
               json_result queryResult)))
       (\<lambda>error. error_result (''Error querying pull requests by commits: '' @ error))"

text \<open>
  The status key and the thread of \<^verbatim>\<open>create_pull_request_comment\<close>, as the handler builds
  them for a new thread.
\<close>

definition thread_status_key :: "string \<Rightarrow> string" where
  "thread_status_key status =
     (if status = ''byDesign'' then ''ByDesign''
      else if status = ''wontFix'' then ''WontFix''
      else toUpperCase (charAt0 status) @ drop 1 status)"

definition new_comment :: "string \<Rightarrow> Comment" where
  "new_comment text_content =
     \<lparr>c_id = None, c_parentCommentId = None, c_author = None, c_content = Some text_content,
      c_publishedDate = None, c_lastUpdatedDate = None, c_lastContentUpdatedDate = None,
      c_commentType = Some Text, c_isDeleted = None\<rparr>"

definition new_thread_data ::
    "string \<Rightarrow> string \<Rightarrow> string option \<Rightarrow> int option \<Rightarrow> int option \<Rightarrow> CommentThread" where
  "new_thread_data text_content status file_path lineStart lineEnd =
     (let threadData =
            \<lparr>t_id = None, t_publishedDate = None, t_lastUpdatedDate = None,
             t_status = CommentThreadStatus_of_key (thread_status_key status),
             t_threadContext = None,
             t_comments = Some [new_comment text_content],
             t_isDeleted = None\<rparr>
      in if truthy_string file_path \<and> truthy_number lineStart
         then threadData
                \<lparr>t_threadContext :=
                   Some \<lparr>filePath = file_path,
                         leftFileStart = None,
                         leftFileEnd = None,
                         rightFileStart = Some \<lparr>line = lineStart, offset = Some 1\<rparr>,
                         rightFileEnd =
                           Some \<lparr>line = (if truthy_number lineEnd then lineEnd else lineStart),
                                 offset = Some 1\<rparr>\<rparr>\<rparr>
         else threadData)"

definition create_pull_request_comment ::
    "providers \<Rightarrow> string \<Rightarrow> int \<Rightarrow> string \<Rightarrow> int option \<Rightarrow> string \<Rightarrow> string option \<Rightarrow> int option
       \<Rightarrow> int option \<Rightarrow> string option \<Rightarrow> (CreatedComment + CreatedThread) outcome" where
  "create_pull_request_comment env repositoryId pullRequestId text_content threadId status
       file_path lineStart lineEnd project =
     try_catch
       (await (connectionProvider env) (\<lambda>gitApi.
          if truthy_number threadId
          then await (createComment gitApi (new_comment text_content) repositoryId pullRequestId
                        (the threadId) project) (\<lambda>result.
                 json_result
                   (Inl \<lparr>cc_id = c_id result, cc_author = trimAuthor (c_author result),
                         cc_content = c_content result,
                         cc_publishedDate = c_publishedDate result,
                         cc_threadId = the threadId\<rparr>))
          else await (createThread gitApi
                        (new_thread_data text_content status file_path lineStart lineEnd)
                        repositoryId pullRequestId project) (\<lambda>result.
                 json_result
                   (Inr \<lparr>ct_id = t_id result, ct_status = t_status result,
                         ct_threadContext = t_threadContext result,
                         ct_comments = trimComments (t_comments result)\<rparr>))))
       (\<lambda>error. error_result (''Error creating comment: '' @ error))"

section \<open>Notions of the specification\<close>

text \<open>
  The stable sort that ECMAScript asks of \<^verbatim>\<open>sort\<close> for a consistent comparator: every element,
  in its turn, goes behind the elements that do not sort after it.
\<close>

definition insert_stable :: "'a comparefn \<Rightarrow> 'a \<Rightarrow> 'a list \<Rightarrow> 'a list" where
  "insert_stable cmp p ys =
     takeWhile (\<lambda>y. \<not> cmp p y < 0) ys @ p # dropWhile (\<lambda>y. \<not> cmp p y < 0) ys"

fun insertion_sort :: "'a comparefn \<Rightarrow> 'a list \<Rightarrow> 'a list \<Rightarrow> 'a list" where
  "insertion_sort cmp pre [] = pre"
| "insertion_sort cmp pre (p # rest) = insertion_sort cmp (insert_stable cmp p pre) rest"

definition stable_sort :: "'a comparefn \<Rightarrow> 'a list \<Rightarrow> 'a list" where
  "stable_sort cmp xs = insertion_sort cmp [] xs"

text \<open>The name a repository is compared by when it is the second argument of the comparator.\<close>

definition name_or_empty :: "GitRepository \<Rightarrow> string" where
  "name_or_empty repo = (case r_name repo of None \<Rightarrow> [] | Some n \<Rightarrow> n)"

text \<open>
  The short names a branch listing is made of: the names of the refs that have a name
  starting with \<^verbatim>\<open>refs/heads/\<close>, without that prefix, in the order of the backend.
\<close>

definition short_branch_names :: "GitRef list \<Rightarrow> string list" where
  "short_branch_names refs =
     map (drop (length ''refs/heads/''))
       (filter (prefix ''refs/heads/'') (List.map_filter ref_name refs))"

subsection \<open>Sample data\<close>

definition sample_repository :: "string \<Rightarrow> string option \<Rightarrow> GitRepository" where
  "sample_repository ident repo_name =
     \<lparr>r_id = Some ident, r_name = repo_name, r_isDisabled = Some False, r_isFork = Some False,
      r_isInMaintenance = Some False, r_webUrl = None, r_size = Some 1,
      r_defaultBranch = Some ''refs/heads/main'', r_remoteUrl = None\<rparr>"

definition sample_comment :: "int \<Rightarrow> string \<Rightarrow> bool option \<Rightarrow> Comment" where
  "sample_comment ident text_content deleted =
     \<lparr>c_id = Some ident, c_parentCommentId = None, c_author = None,
      c_content = Some text_content, c_publishedDate = None, c_lastUpdatedDate = None,
      c_lastContentUpdatedDate = None, c_commentType = Some Text, c_isDeleted = deleted\<rparr>"

definition sample_thread :: "int \<Rightarrow> Comment list \<Rightarrow> CommentThread" where
  "sample_thread ident cs =
     \<lparr>t_id = Some ident, t_publishedDate = None, t_lastUpdatedDate = None,
      t_status = Some Active_thread, t_threadContext = None, t_comments = Some cs,
      t_isDeleted = None\<rparr>"

definition sample_ref :: "string \<Rightarrow> GitRef" where
  "sample_ref full_name = \<lparr>ref_name = Some full_name, ref_objectId = None, ref_creator = None\<rparr>"

text \<open>
  A backend with three branches; project \<open>P\<close> has a repository without a name between two
  named ones, project \<open>Q\<close> has named repositories only; the one thread of the pull request has
  a deleted comment; creating a thread or a comment hands back what was sent.
\<close>

definition sample_api :: IGitApi where
  "sample_api =
     \<lparr>getRepositories = (\<lambda>project _ _ _.
        if project = ''P''
        then Fulfilled (Some [sample_repository ''1'' (Some ''b''), sample_repository ''2'' None,
                              sample_repository ''3'' (Some ''a'')])
        else if project = ''Q''
        then Fulfilled (Some [sample_repository ''1'' (Some ''b''),
                              sample_repository ''2'' (Some ''c''),
                              sample_repository ''3'' (Some ''a'')])
        else Rejected ''project not found''),
      getPullRequests = (\<lambda>_ _ _ _. Fulfilled (Some [])),
      getPullRequestsByProject = (\<lambda>_ _ _ _. Fulfilled (Some [])),
      getThreads = (\<lambda>_ _ _ _ _.
        Fulfilled (Some [sample_thread 7
                           [sample_comment 2 ''gone'' (Some True),
                            sample_comment 1 ''kept'' (Some False)]])),
      getComments = (\<lambda>_ _ _ _.
        Fulfilled (Some [sample_comment 2 ''gone'' (Some True),
                         sample_comment 1 ''kept'' (Some False)])),
      getRefs = (\<lambda>_ _ _ _ _ _ _.
        Fulfilled (Some [sample_ref ''refs/heads/main'', sample_ref ''refs/heads/dev'',
                         sample_ref ''refs/heads/beta''])),
      getPullRequest = (\<lambda>_ _ _. Fulfilled None),
      getCommits = (\<lambda>_ _ _ _ _. Fulfilled (Some [])),
      getPullRequestQuery = (\<lambda>query _ _. Fulfilled (Some query)),
      createComment = (\<lambda>comment _ _ _ _. Fulfilled comment),
      createThread = (\<lambda>thread _ _ _. Fulfilled thread)\<rparr>"

definition sample_providers :: providers where
  "sample_providers =
     \<lparr>connectionProvider = Fulfilled sample_api,
      getUserIdFromEmail = (\<lambda>email.
        if email = ''a@x.com'' then Fulfilled ''id-a'' else Rejected ''no such user''),
      getCurrentUserDetails = Fulfilled ''id-me''\<rparr>"

text \<open>
  A backend that reports what it was asked: a pull request listing answers with one pull
  request whose title is the creator id and whose description is the reviewer id of the
  search criteria, a commit search with one commit whose id is the version of the criteria.
\<close>

definition echo_pull_request :: "string option \<Rightarrow> string option \<Rightarrow> GitPullRequest" where
  "echo_pull_request creator reviewer =
     \<lparr>pr_pullRequestId = None, pr_codeReviewId = None, pr_repository = None,
      pr_status = None, pr_createdBy = None, pr_creationDate = None, pr_title = creator,
      pr_description = reviewer, pr_isDraft = None, pr_sourceRefName = None,
      pr_targetRefName = None\<rparr>"

definition echo_api :: IGitApi where
  "echo_api =
     sample_api
       \<lparr>getPullRequests := (\<lambda>_ criteria _ _.
          Fulfilled (Some [echo_pull_request (sc_creatorId criteria) (sc_reviewerId criteria)])),
        getPullRequestsByProject := (\<lambda>_ criteria _ _.
          Fulfilled (Some [echo_pull_request (psc_creatorId criteria) (psc_reviewerId criteria)])),
        getCommits := (\<lambda>_ criteria _ _ _.
          Fulfilled (Some [\<lparr>commitId = Option.bind (itemVersion criteria) version,
                            commit_comment = None\<rparr>]))\<rparr>"

definition echo_providers :: providers where
  "echo_providers = sample_providers\<lparr>connectionProvider := Fulfilled echo_api\<rparr>"

text \<open>A backend that can be reached and fails every call.\<close>

definition failing_api :: IGitApi where
  "failing_api =
     \<lparr>getRepositories = (\<lambda>_ _ _ _. Rejected ''service unavailable''),
      getPullRequests = (\<lambda>_ _ _ _. Rejected ''service unavailable''),
      getPullRequestsByProject = (\<lambda>_ _ _ _. Rejected ''service unavailable''),
      getThreads = (\<lambda>_ _ _ _ _. Rejected ''service unavailable''),
      getComments = (\<lambda>_ _ _ _. Rejected ''service unavailable''),
      getRefs = (\<lambda>_ _ _ _ _ _ _. Rejected ''service unavailable''),
      getPullRequest = (\<lambda>_ _ _. Rejected ''service unavailable''),
      getCommits = (\<lambda>_ _ _ _ _. Rejected ''service unavailable''),
      getPullRequestQuery = (\<lambda>_ _ _. Rejected ''service unavailable''),
      createComment = (\<lambda>_ _ _ _ _. Rejected ''service unavailable''),
      createThread = (\<lambda>_ _ _ _. Rejected ''service unavailable'')\<rparr>"

definition failing_providers :: providers where
  "failing_providers = sample_providers\<lparr>connectionProvider := Fulfilled failing_api\<rparr>"

definition offline_providers :: providers where
  "offline_providers =
     \<lparr>connectionProvider = Rejected ''connection refused'',
      getUserIdFromEmail = (\<lambda>email. Rejected ''connection refused''),
      getCurrentUserDetails = Rejected ''connection refused''\<rparr>"

section \<open>Properties of the runtime model\<close>

subsection \<open>Consistent comparators\<close>

lemma consistent_not_lt: "consistent cmp S \<Longrightarrow> a \<in> S \<Longrightarrow> b \<in> S \<Longrightarrow> (\<not> cmp a b < 0) = (cmp b a \<le> 0)"
  unfolding consistent_def by (metis not_less)

lemma consistent_trans: "consistent cmp S \<Longrightarrow> a \<in> S \<Longrightarrow> b \<in> S \<Longrightarrow> c \<in> S \<Longrightarrow> cmp a b \<le> 0 \<Longrightarrow> cmp b c \<le> 0 \<Longrightarrow> cmp a c \<le> 0"
  unfolding consistent_def by blast

lemma consistent_lt_le: 
  assumes "consistent cmp S" "a \<in> S" "b \<in> S" "c \<in> S" "cmp a b < 0" "cmp b c \<le> 0"
  shows "cmp a c < 0"
proof (rule ccontr)
  assume "\<not> cmp a c < 0"
  then have "cmp c a \<le> 0" using assms consistent_not_lt by metis
  then have "cmp b a \<le> 0" using assms consistent_trans by metis
  then have "\<not> cmp a b < 0" using assms consistent_not_lt by metis
  then show False using assms by simp
qed

lemma consistent_le_lt: 
  assumes "consistent cmp S" "a \<in> S" "b \<in> S" "c \<in> S" "cmp a b \<le> 0" "cmp b c < 0"
  shows "cmp a c < 0"
proof (rule ccontr)
  assume "\<not> cmp a c < 0"
  then have "cmp c a \<le> 0" using assms consistent_not_lt by metis
  then have "cmp c b \<le> 0" using assms consistent_trans by metis
  then have "\<not> cmp b c < 0" using assms consistent_not_lt by metis
  then show False using assms by simp
qed

lemma mset_BinaryInsertionSort: "mset (BinaryInsertionSort cmp pre rest) = mset pre + mset rest"
proof (induction rest arbitrary: pre)
  case Nil then show ?case by simp
next
  case (Cons p rest)
  have "mset (take k pre @ p # drop k pre) = mset pre + {#p#}" for k
    by (metis append_take_drop_id mset.simps(2) mset_append union_mset_add_mset_right add.right_neutral)
  then show ?case using Cons by (simp add: Let_def)
qed

lemma mset_take_drop: "mset (take k ys) + mset (drop k ys) = mset ys"
  by (metis append_take_drop_id mset_append)

lemma CountAndMakeRun_mset: "CountAndMakeRun cmp xs = (run, rest) \<Longrightarrow> mset run + mset rest = mset xs"
proof (cases xs)
  case Nil then show "CountAndMakeRun cmp xs = (run, rest) \<Longrightarrow> ?thesis" by auto
next
  case (Cons x0 ys)
  assume a: "CountAndMakeRun cmp xs = (run, rest)"
  show ?thesis
  proof (cases ys)
    case Nil then show ?thesis using a Cons by auto
  next
    case (Cons x1 zs)
    then have xs: "xs = x0 # x1 # zs" using \<open>xs = x0 # ys\<close> by simp
    obtain n where "(run = rev (take n xs) \<or> run = take n xs) \<and> rest = drop n xs"
      using a unfolding xs CountAndMakeRun.simps Let_def by (metis Pair_inject)
    then show ?thesis using mset_take_drop[of n xs] by auto
  qed
qed

lemma mset_Array_sort: "mset (Array_sort cmp xs) = mset xs"
proof (cases "length xs < 2")
  case True then show ?thesis by (simp add: Array_sort_def)
next
  case False
  obtain run rest where r: "CountAndMakeRun cmp xs = (run, rest)" by (cases "CountAndMakeRun cmp xs")
  have "mset (BinaryInsertionSort cmp run rest) = mset xs"
    using CountAndMakeRun_mset[OF r] by (simp add: mset_BinaryInsertionSort)
  then show ?thesis using False r by (simp add: Array_sort_def)
qed


lemma find_insertion_point_correct:
  "consistent cmp S \<Longrightarrow> pivot \<in> S \<Longrightarrow> set ws \<subseteq> S \<Longrightarrow>
     sorted_wrt (\<lambda>a b. cmp a b \<le> 0) ws \<Longrightarrow> left \<le> right \<Longrightarrow> right \<le> length ws \<Longrightarrow>
     (\<forall>i<left. \<not> cmp pivot (ws ! i) < 0) \<Longrightarrow>
     (\<forall>i. right \<le> i \<and> i < length ws \<longrightarrow> cmp pivot (ws ! i) < 0) \<Longrightarrow>
     (let r = find_insertion_point cmp pivot ws left right in
        r \<le> length ws \<and> (\<forall>i<r. \<not> cmp pivot (ws ! i) < 0) \<and>
        (\<forall>i. r \<le> i \<and> i < length ws \<longrightarrow> cmp pivot (ws ! i) < 0))"
proof (induction cmp pivot ws left right rule: find_insertion_point.induct)
  case (1 cmp pivot ws left right)
  note con = \<open>consistent cmp S\<close> and pS = \<open>pivot \<in> S\<close> and wS = \<open>set ws \<subseteq> S\<close>
    and srt = \<open>sorted_wrt (\<lambda>a b. cmp a b \<le> 0) ws\<close>
    and lr = \<open>left \<le> right\<close> and rl = \<open>right \<le> length ws\<close>
    and below = \<open>\<forall>i<left. \<not> cmp pivot (ws ! i) < 0\<close>
    and above = \<open>\<forall>i. right \<le> i \<and> i < length ws \<longrightarrow> cmp pivot (ws ! i) < 0\<close>
  show ?case
  proof (cases "left < right")
    case False
    then have eq: "find_insertion_point cmp pivot ws left right = left"
      by (simp add: find_insertion_point.simps[of cmp pivot ws left right])
    have "left = right" using False lr by simp
    then show ?thesis using below above rl unfolding eq Let_def by simp
  next
    case True
    define mid where "mid = left + (right - left) div 2"
    have mid: "left \<le> mid" "mid < right" "mid < length ws" using True rl by (auto simp: mid_def)
    have inS: "\<And>i. i < length ws \<Longrightarrow> ws ! i \<in> S" using wS by (meson nth_mem subsetD)
    show ?thesis
    proof (cases "cmp pivot (ws ! mid) < 0")
      case lt: True
      have ab: "\<forall>i. mid \<le> i \<and> i < length ws \<longrightarrow> cmp pivot (ws ! i) < 0"
      proof (intro allI impI)
        fix i assume i: "mid \<le> i \<and> i < length ws"
        show "cmp pivot (ws ! i) < 0"
        proof (cases "i = mid")
          case True then show ?thesis using lt by simp
        next
          case False
          then have "cmp (ws ! mid) (ws ! i) \<le> 0" using i srt
            by (simp add: sorted_wrt_iff_nth_less)
          then show ?thesis using consistent_lt_le[OF con pS inS[OF mid(3)] inS lt] i by blast
        qed
      qed
      have "let r = find_insertion_point cmp pivot ws left mid in
        r \<le> length ws \<and> (\<forall>i<r. \<not> cmp pivot (ws ! i) < 0) \<and>
        (\<forall>i. r \<le> i \<and> i < length ws \<longrightarrow> cmp pivot (ws ! i) < 0)"
        using "1.IH"(1)[OF True mid_def lt con pS wS srt mid(1) _ below ab] mid(3) by simp
      then show ?thesis using True lt
        by (simp add: find_insertion_point.simps[of cmp pivot ws left right] mid_def Let_def)
    next
      case nlt: False
      have bl: "\<forall>i<mid + 1. \<not> cmp pivot (ws ! i) < 0"
      proof (intro allI impI)
        fix i assume i: "i < mid + 1"
        show "\<not> cmp pivot (ws ! i) < 0"
        proof (cases "i = mid")
          case True then show ?thesis using nlt by simp
        next
          case False
          then have im: "i < mid" using i by simp
          then have il: "i < length ws" using mid by simp
          have a: "cmp (ws ! i) (ws ! mid) \<le> 0" using im mid srt
            by (simp add: sorted_wrt_iff_nth_less)
          have b: "cmp (ws ! mid) pivot \<le> 0"
            using nlt consistent_not_lt[OF con pS inS[OF mid(3)]] by simp
          have "cmp (ws ! i) pivot \<le> 0"
            using consistent_trans[OF con inS[OF il] inS[OF mid(3)] pS a b] .
          then show ?thesis using consistent_not_lt[OF con pS inS[OF il]] by simp
        qed
      qed
      have "let r = find_insertion_point cmp pivot ws (mid + 1) right in
        r \<le> length ws \<and> (\<forall>i<r. \<not> cmp pivot (ws ! i) < 0) \<and>
        (\<forall>i. r \<le> i \<and> i < length ws \<longrightarrow> cmp pivot (ws ! i) < 0)"
        using "1.IH"(2)[OF True mid_def nlt con pS wS srt _ rl bl above] mid(2) by simp
      then show ?thesis using True nlt
        by (simp add: find_insertion_point.simps[of cmp pivot ws left right] mid_def Let_def)
    qed
  qed
qed

lemma binary_insert_eq_insert_stable:
  assumes con: "consistent cmp S" and S: "pivot \<in> S" "set ws \<subseteq> S"
    and srt: "sorted_wrt (\<lambda>a b. cmp a b \<le> 0) ws"
  shows "(let left = find_insertion_point cmp pivot ws 0 (length ws)
          in take left ws @ pivot # drop left ws) = insert_stable cmp pivot ws"
proof -
  define r where "r = find_insertion_point cmp pivot ws 0 (length ws)"
  have r: "r \<le> length ws" "\<forall>i<r. \<not> cmp pivot (ws ! i) < 0"
     "\<forall>i. r \<le> i \<and> i < length ws \<longrightarrow> cmp pivot (ws ! i) < 0"
    using find_insertion_point_correct[OF con S srt, of 0 "length ws"] by (simp_all add: r_def Let_def)
  have tw: "takeWhile (\<lambda>y. \<not> cmp pivot y < 0) ws = take r ws"
    by (rule takeWhile_eq_take_P_nth) (use r in auto)
  have dw: "dropWhile (\<lambda>y. \<not> cmp pivot y < 0) ws = drop r ws"
    using tw r(1) by (simp add: dropWhile_eq_drop)
  show ?thesis by (simp add: insert_stable_def tw dw r_def[symmetric] Let_def)
qed


lemma set_insert_stable: "set (insert_stable cmp p ys) = insert p (set ys)"
proof -
  have "set (takeWhile (\<lambda>y. \<not> cmp p y < 0) ys) \<union> set (dropWhile (\<lambda>y. \<not> cmp p y < 0) ys) = set ys"
    by (metis set_append takeWhile_dropWhile_id)
  then show ?thesis by (auto simp: insert_stable_def)
qed

lemma dropWhile_all_lt:
  "consistent cmp S \<Longrightarrow> p \<in> S \<Longrightarrow> set ys \<subseteq> S \<Longrightarrow> sorted_wrt (\<lambda>a b. cmp a b \<le> 0) ys \<Longrightarrow>
   y \<in> set (dropWhile (\<lambda>y. \<not> cmp p y < 0) ys) \<Longrightarrow> cmp p y < 0"
proof (induction ys)
  case Nil then show ?case by simp
next
  case (Cons a ys)
  show ?case
  proof (cases "cmp p a < 0")
    case False
    then show ?thesis using Cons by simp
  next
    case True
    then have "y = a \<or> y \<in> set ys" using Cons.prems(5) by simp
    then show ?thesis
    proof
      assume "y = a" then show ?thesis using True by simp
    next
      assume y: "y \<in> set ys"
      then have "cmp a y \<le> 0" using Cons.prems(4) by simp
      moreover have "a \<in> S" "y \<in> S" using Cons.prems(3) y by auto
      ultimately show ?thesis using consistent_lt_le[OF Cons.prems(1) Cons.prems(2) _ _ True] by blast
    qed
  qed
qed

lemma takeWhile_all_le:
  "consistent cmp S \<Longrightarrow> p \<in> S \<Longrightarrow> set ys \<subseteq> S \<Longrightarrow>
   y \<in> set (takeWhile (\<lambda>y. \<not> cmp p y < 0) ys) \<Longrightarrow> cmp y p \<le> 0"
proof -
  assume con: "consistent cmp S" and p: "p \<in> S" and ys: "set ys \<subseteq> S"
    and y: "y \<in> set (takeWhile (\<lambda>y. \<not> cmp p y < 0) ys)"
  have "y \<in> set ys" using y by (rule set_takeWhileD[THEN conjunct1])
  then have yS: "y \<in> S" using ys by blast
  have "\<not> cmp p y < 0" using y by (rule set_takeWhileD[THEN conjunct2])
  then show ?thesis using consistent_not_lt[OF con p yS] by simp
qed

lemma sorted_insert_stable:
  assumes con: "consistent cmp S" and S: "p \<in> S" "set ys \<subseteq> S"
    and srt: "sorted_wrt (\<lambda>a b. cmp a b \<le> 0) ys"
  shows "sorted_wrt (\<lambda>a b. cmp a b \<le> 0) (insert_stable cmp p ys)"
proof -
  let ?P = "\<lambda>y. \<not> cmp p y < 0"
  let ?tw = "takeWhile ?P ys" and ?dw = "dropWhile ?P ys"
  have srt2: "sorted_wrt (\<lambda>a b. cmp a b \<le> 0) (?tw @ ?dw)" using srt by simp
  have tw_le: "\<forall>y\<in>set ?tw. cmp y p \<le> 0"
  proof
    fix y assume "y \<in> set ?tw"
    then show "cmp y p \<le> 0" by (rule takeWhile_all_le[OF con S])
  qed
  have dw_lt: "\<forall>y\<in>set ?dw. cmp p y \<le> 0"
  proof
    fix y assume "y \<in> set ?dw"
    then have "cmp p y < 0" by (rule dropWhile_all_lt[OF con S srt])
    then show "cmp p y \<le> 0" by simp
  qed
  have "sorted_wrt (\<lambda>a b. cmp a b \<le> 0) (?tw @ p # ?dw)"
    using srt2 tw_le dw_lt unfolding sorted_wrt_append by simp
  then show ?thesis by (simp add: insert_stable_def)
qed

lemma filter_insert_stable:
  assumes con: "consistent cmp S" and S: "p \<in> S" "set ys \<subseteq> S" "x \<in> S"
    and srt: "sorted_wrt (\<lambda>a b. cmp a b \<le> 0) ys"
  shows "filter (\<lambda>y. cmp x y = 0) (insert_stable cmp p ys) = filter (\<lambda>y. cmp x y = 0) (ys @ [p])"
proof -
  let ?P = "\<lambda>y. \<not> cmp p y < 0"
  let ?tw = "takeWhile ?P ys" and ?dw = "dropWhile ?P ys"
  have dwS: "\<And>y. y \<in> set ?dw \<Longrightarrow> y \<in> S" using S(2) by (meson set_dropWhileD subsetD)
  have split: "filter (\<lambda>y. cmp x y = 0) ys = filter (\<lambda>y. cmp x y = 0) ?tw @ filter (\<lambda>y. cmp x y = 0) ?dw"
    by (metis filter_append takeWhile_dropWhile_id)
  show ?thesis
  proof (cases "cmp x p = 0")
    case False
    then show ?thesis using split by (simp add: insert_stable_def)
  next
    case True
    have "\<forall>y\<in>set ?dw. cmp x y \<noteq> 0"
    proof
      fix y assume y: "y \<in> set ?dw"
      have "cmp x p \<le> 0" using True by simp
      moreover have "cmp p y < 0" using dropWhile_all_lt[OF con S(1) S(2) srt y] .
      ultimately have "cmp x y < 0" using consistent_le_lt[OF con S(3) S(1) dwS[OF y]] by blast
      then show "cmp x y \<noteq> 0" by simp
    qed
    then have "filter (\<lambda>y. cmp x y = 0) ?dw = []" by (simp add: filter_empty_conv)
    then show ?thesis using split True by (simp add: insert_stable_def)
  qed
qed

lemma BinaryInsertionSort_eq_insertion_sort:
  "consistent cmp S \<Longrightarrow> set pre \<subseteq> S \<Longrightarrow> set rest \<subseteq> S \<Longrightarrow>
   sorted_wrt (\<lambda>a b. cmp a b \<le> 0) pre \<Longrightarrow>
   BinaryInsertionSort cmp pre rest = insertion_sort cmp pre rest"
proof (induction rest arbitrary: pre)
  case Nil then show ?case by simp
next
  case (Cons p rest)
  have pS: "p \<in> S" using Cons.prems(3) by simp
  have step: "(let left = find_insertion_point cmp p pre 0 (length pre)
          in take left pre @ p # drop left pre) = insert_stable cmp p pre"
    using binary_insert_eq_insert_stable[OF Cons.prems(1) pS Cons.prems(2) Cons.prems(4)] .
  have srt: "sorted_wrt (\<lambda>a b. cmp a b \<le> 0) (insert_stable cmp p pre)"
    using sorted_insert_stable[OF Cons.prems(1) pS Cons.prems(2) Cons.prems(4)] .
  have sub: "set (insert_stable cmp p pre) \<subseteq> S" using pS Cons.prems(2) by (simp add: set_insert_stable)
  have "BinaryInsertionSort cmp pre (p # rest) = BinaryInsertionSort cmp (insert_stable cmp p pre) rest"
    using step by (simp add: Let_def)
  also have "\<dots> = insertion_sort cmp (insert_stable cmp p pre) rest"
    using Cons.IH[OF Cons.prems(1) sub _ srt] Cons.prems(3) by simp
  finally show ?case by simp
qed

lemma insertion_sort_append:
  "insertion_sort cmp pre (xs @ ys) = insertion_sort cmp (insertion_sort cmp pre xs) ys"
  by (induction xs arbitrary: pre) auto

lemma sorted_insertion_sort:
  "consistent cmp S \<Longrightarrow> set pre \<subseteq> S \<Longrightarrow> set rest \<subseteq> S \<Longrightarrow>
   sorted_wrt (\<lambda>a b. cmp a b \<le> 0) pre \<Longrightarrow>
   sorted_wrt (\<lambda>a b. cmp a b \<le> 0) (insertion_sort cmp pre rest)"
proof (induction rest arbitrary: pre)
  case Nil then show ?case by simp
next
  case (Cons p rest)
  have pS: "p \<in> S" using Cons.prems(3) by simp
  have srt: "sorted_wrt (\<lambda>a b. cmp a b \<le> 0) (insert_stable cmp p pre)"
    using sorted_insert_stable[OF Cons.prems(1) pS Cons.prems(2) Cons.prems(4)] .
  have sub: "set (insert_stable cmp p pre) \<subseteq> S" using pS Cons.prems(2) by (simp add: set_insert_stable)
  show ?case using Cons.IH[OF Cons.prems(1) sub _ srt] Cons.prems(3) by simp
qed

lemma filter_insertion_sort:
  "consistent cmp S \<Longrightarrow> set pre \<subseteq> S \<Longrightarrow> set rest \<subseteq> S \<Longrightarrow> x \<in> S \<Longrightarrow>
   sorted_wrt (\<lambda>a b. cmp a b \<le> 0) pre \<Longrightarrow>
   filter (\<lambda>y. cmp x y = 0) (insertion_sort cmp pre rest) = filter (\<lambda>y. cmp x y = 0) (pre @ rest)"
proof (induction rest arbitrary: pre)
  case Nil then show ?case by simp
next
  case (Cons p rest)
  have pS: "p \<in> S" using Cons.prems(3) by simp
  have srt: "sorted_wrt (\<lambda>a b. cmp a b \<le> 0) (insert_stable cmp p pre)"
    using sorted_insert_stable[OF Cons.prems(1) pS Cons.prems(2) Cons.prems(5)] .
  have sub: "set (insert_stable cmp p pre) \<subseteq> S" using pS Cons.prems(2) by (simp add: set_insert_stable)
  have "filter (\<lambda>y. cmp x y = 0) (insertion_sort cmp (insert_stable cmp p pre) rest)
        = filter (\<lambda>y. cmp x y = 0) (insert_stable cmp p pre @ rest)"
    using Cons.IH[OF Cons.prems(1) sub _ Cons.prems(4) srt] Cons.prems(3) by simp
  also have "\<dots> = filter (\<lambda>y. cmp x y = 0) ((pre @ [p]) @ rest)"
    using filter_insert_stable[OF Cons.prems(1) pS Cons.prems(2) Cons.prems(4) Cons.prems(5)]
    by (simp only: filter_append)
  finally show ?case by simp
qed


lemma insertion_sort_ascending:
  "consistent cmp S \<Longrightarrow> set pre \<subseteq> S \<Longrightarrow> set zs \<subseteq> S \<Longrightarrow>
   sorted_wrt (\<lambda>a b. cmp a b \<le> 0) (pre @ zs) \<Longrightarrow> insertion_sort cmp pre zs = pre @ zs"
proof (induction zs arbitrary: pre)
  case Nil then show ?case by simp
next
  case (Cons p zs)
  have pS: "p \<in> S" using Cons.prems(3) by simp
  have all: "\<forall>y\<in>set pre. \<not> cmp p y < 0"
  proof
    fix y assume y: "y \<in> set pre"
    then have "cmp y p \<le> 0" using Cons.prems(4) by (simp add: sorted_wrt_append)
    moreover have "y \<in> S" using y Cons.prems(2) by blast
    ultimately show "\<not> cmp p y < 0" using consistent_not_lt[OF Cons.prems(1) pS] by blast
  qed
  have ins: "insert_stable cmp p pre = pre @ [p]"
    using all by (simp add: insert_stable_def)
  have "insertion_sort cmp (pre @ [p]) zs = (pre @ [p]) @ zs"
    using Cons.prems pS by (intro Cons.IH) auto
  then show ?case using ins by simp
qed

lemma insertion_sort_descending:
  "sorted_wrt (\<lambda>a b. cmp b a < 0) (rev pre @ zs) \<Longrightarrow> insertion_sort cmp pre zs = rev zs @ pre"
proof (induction zs arbitrary: pre)
  case Nil then show ?case by simp
next
  case (Cons p zs)
  have ins: "insert_stable cmp p pre = p # pre"
  proof (cases pre)
    case Nil then show ?thesis by (simp add: insert_stable_def)
  next
    case (Cons y ys)
    then have "cmp p y < 0" using Cons.prems by (simp add: sorted_wrt_append)
    then show ?thesis using Cons by (simp add: insert_stable_def)
  qed
  have "insertion_sort cmp (p # pre) zs = rev zs @ p # pre"
    using Cons.prems by (intro Cons.IH) simp
  then show ?case using ins by simp
qed

lemma ascending_run_sorted:
  "consistent cmp S \<Longrightarrow> x \<in> S \<Longrightarrow> set xs \<subseteq> S \<Longrightarrow>
   sorted_wrt (\<lambda>a b. cmp a b \<le> 0) (take (Suc (count_ascending cmp x xs)) (x # xs))"
proof (induction xs arbitrary: x)
  case Nil then show ?case by simp
next
  case (Cons y ys)
  show ?case
  proof (cases "cmp y x < 0")
    case True then show ?thesis by simp
  next
    case False
    have yS: "y \<in> S" and ysS: "set ys \<subseteq> S" using Cons.prems(3) by auto
    have xy: "cmp x y \<le> 0" using False consistent_not_lt[OF Cons.prems(1) yS Cons.prems(2)] by simp
    let ?run = "take (Suc (count_ascending cmp y ys)) (y # ys)"
    have IH: "sorted_wrt (\<lambda>a b. cmp a b \<le> 0) ?run" using Cons.IH[OF Cons.prems(1) yS ysS] .
    have run: "?run = y # take (count_ascending cmp y ys) ys" by simp
    have "\<forall>z\<in>set ?run. cmp x z \<le> 0"
    proof
      fix z assume z: "z \<in> set ?run"
      have zS: "z \<in> S" using z Cons.prems(3) by (meson in_set_takeD subsetD)
      have "z = y \<or> cmp y z \<le> 0" using IH z unfolding run by auto
      then show "cmp x z \<le> 0"
        using xy consistent_trans[OF Cons.prems(1) Cons.prems(2) yS zS xy] by blast
    qed
    then show ?thesis using IH False by simp
  qed
qed

lemma descending_run_sorted:
  "consistent cmp S \<Longrightarrow> x \<in> S \<Longrightarrow> set xs \<subseteq> S \<Longrightarrow>
   sorted_wrt (\<lambda>a b. cmp b a < 0) (take (Suc (count_descending cmp x xs)) (x # xs))"
proof (induction xs arbitrary: x)
  case Nil then show ?case by simp
next
  case (Cons y ys)
  show ?case
  proof (cases "cmp y x < 0")
    case False then show ?thesis by simp
  next
    case True
    have yS: "y \<in> S" and ysS: "set ys \<subseteq> S" using Cons.prems(3) by auto
    let ?run = "take (Suc (count_descending cmp y ys)) (y # ys)"
    have IH: "sorted_wrt (\<lambda>a b. cmp b a < 0) ?run" using Cons.IH[OF Cons.prems(1) yS ysS] .
    have run: "?run = y # take (count_descending cmp y ys) ys" by simp
    have "\<forall>z\<in>set ?run. cmp z x < 0"
    proof
      fix z assume z: "z \<in> set ?run"
      have zS: "z \<in> S" using z Cons.prems(3) by (meson in_set_takeD subsetD)
      have "z = y \<or> cmp z y < 0" using IH z unfolding run by auto
      then show "cmp z x < 0"
      proof
        assume "z = y" then show ?thesis using True by simp
      next
        assume "cmp z y < 0"
        moreover have "cmp y x \<le> 0" using True by simp
        ultimately show ?thesis using consistent_lt_le[OF Cons.prems(1) zS yS Cons.prems(2)] by blast
      qed
    qed
    then show ?thesis using IH True by simp
  qed
qed

lemma CountAndMakeRun_insertion_sort:
  assumes con: "consistent cmp S" and S: "set xs \<subseteq> S" and r: "CountAndMakeRun cmp xs = (run, rest)"
  shows "\<exists>n. run = insertion_sort cmp [] (take n xs) \<and> rest = drop n xs \<and>
             sorted_wrt (\<lambda>a b. cmp a b \<le> 0) run"
proof (cases xs)
  case Nil
  then have "run = [] \<and> rest = []" using r by simp
  then show ?thesis using Nil by simp
next
  case (Cons x0 ys)
  show ?thesis
  proof (cases ys)
    case Nil
    then have "run = [x0] \<and> rest = []" using r Cons by simp
    then have "run = insertion_sort cmp [] (take 1 xs) \<and> rest = drop 1 xs \<and>
             sorted_wrt (\<lambda>a b. cmp a b \<le> 0) run" using Cons Nil by (simp add: insert_stable_def)
    then show ?thesis by blast
  next
    case (Cons x1 zs)
    then have xs: "xs = x0 # x1 # zs" using \<open>xs = x0 # ys\<close> by simp
    have x0S: "x0 \<in> S" and tlS: "set (x1 # zs) \<subseteq> S" using S xs by auto
    show ?thesis
    proof (cases "cmp x1 x0 < 0")
      case True
      define n where "n = Suc (count_descending cmp x0 (x1 # zs))"
      have n: "n = 2 + count_descending cmp x1 zs" using True by (simp add: n_def)
      have rr: "run = rev (take n xs)" "rest = drop n xs"
        using r True unfolding xs CountAndMakeRun.simps Let_def n by simp_all
      have d: "sorted_wrt (\<lambda>a b. cmp b a < 0) (take n xs)"
        unfolding n_def xs by (rule descending_run_sorted[OF con x0S tlS])
      have "insertion_sort cmp [] (take n xs) = rev (take n xs) @ []"
        by (rule insertion_sort_descending) (use d in simp)
      moreover have "sorted_wrt (\<lambda>a b. cmp a b \<le> 0) (rev (take n xs))"
        using d by (simp add: sorted_wrt_rev sorted_wrt_mono_rel[of _ "\<lambda>a b. cmp b a < 0"])
      ultimately have "run = insertion_sort cmp [] (take n xs) \<and> rest = drop n xs \<and>
             sorted_wrt (\<lambda>a b. cmp a b \<le> 0) run" using rr by simp
      then show ?thesis by (rule exI)
    next
      case False
      define n where "n = Suc (count_ascending cmp x0 (x1 # zs))"
      have n: "n = 2 + count_ascending cmp x1 zs" using False by (simp add: n_def)
      have rr: "run = take n xs" "rest = drop n xs"
        using r False unfolding xs CountAndMakeRun.simps Let_def n by simp_all
      have a: "sorted_wrt (\<lambda>a b. cmp a b \<le> 0) (take n xs)"
        unfolding n_def xs by (rule ascending_run_sorted[OF con x0S tlS])
      have "insertion_sort cmp [] (take n xs) = [] @ take n xs"
        by (rule insertion_sort_ascending[OF con]) (use a S in \<open>auto dest: in_set_takeD\<close>)
      then have "run = insertion_sort cmp [] (take n xs) \<and> rest = drop n xs \<and>
             sorted_wrt (\<lambda>a b. cmp a b \<le> 0) run" using rr a by simp
      then show ?thesis by (rule exI)
    qed
  qed
qed

lemma Array_sort_stable_sort:
  assumes con: "consistent cmp S" and S: "set xs \<subseteq> S"
  shows "Array_sort cmp xs = stable_sort cmp xs"
proof (cases "length xs < 2")
  case True
  then have "xs = [] \<or> (\<exists>x. xs = [x])"
    by (cases xs) (auto simp: length_Suc_conv)
  then show ?thesis by (auto simp: Array_sort_def stable_sort_def insert_stable_def)
next
  case False
  obtain run rest where r: "CountAndMakeRun cmp xs = (run, rest)" by (cases "CountAndMakeRun cmp xs")
  obtain n where n: "run = insertion_sort cmp [] (take n xs)" "rest = drop n xs"
      "sorted_wrt (\<lambda>a b. cmp a b \<le> 0) run"
    using CountAndMakeRun_insertion_sort[OF con S r] by blast
  have sets: "set run \<subseteq> S" "set rest \<subseteq> S"
    using CountAndMakeRun_mset[OF r] S by (metis mset_eq_setD set_append mset_append Un_subset_iff)+
  have "Array_sort cmp xs = BinaryInsertionSort cmp run rest"
    using False r by (simp add: Array_sort_def)
  also have "\<dots> = insertion_sort cmp run rest"
    by (rule BinaryInsertionSort_eq_insertion_sort[OF con sets n(3)])
  also have "\<dots> = insertion_sort cmp [] (take n xs @ drop n xs)"
    unfolding insertion_sort_append n(1,2) ..
  finally show ?thesis by (simp add: stable_sort_def)
qed

subsection \<open>The comparison of character codes is consistent\<close>

lemma codeCompare_antisym: "(codeCompare a b < 0) = (0 < codeCompare b a)"
  by (induction a b rule: codeCompare.induct) auto

lemma codeCompare_trans: "codeCompare a b \<le> 0 \<Longrightarrow> codeCompare b c \<le> 0 \<Longrightarrow> codeCompare a c \<le> 0"
proof (induction a b arbitrary: c rule: codeCompare.induct)
  case 1 then show ?case by simp
next
  case (2 y ys) then show ?case by (cases c) simp_all
next
  case (3 x xs) then show ?case by simp
next
  case (4 x xs y ys)
  show ?case
  proof (cases c)
    case Nil
    then show ?thesis using "4.prems"(2) by simp
  next
    case (Cons z zs)
    show ?thesis
    proof (cases "(of_char x :: nat) < of_char y")
      case True
      have "(of_char y :: nat) \<le> of_char z"
        using "4.prems"(2) Cons by (simp split: if_splits)
      then have "(of_char x :: nat) < of_char z" using True by simp
      then show ?thesis using Cons by simp
    next
      case False
      then have xy: "(of_char x :: nat) = of_char y" and a: "codeCompare xs ys \<le> 0"
        using "4.prems"(1) by (simp_all split: if_splits)
      show ?thesis
      proof (cases "(of_char y :: nat) < of_char z")
        case True
        then have "(of_char x :: nat) < of_char z" using xy by simp
        then show ?thesis using Cons by simp
      next
        case False
        then have yz: "(of_char y :: nat) = of_char z" and b: "codeCompare ys zs \<le> 0"
          using "4.prems"(2) Cons by (simp_all split: if_splits)
        have "codeCompare xs zs \<le> 0" using "4.IH"[OF _ _ a b] xy by simp
        then show ?thesis using xy yz Cons by simp
      qed
    qed
  qed
qed

lemma consistent_codeCompare: "consistent codeCompare S"
  unfolding consistent_def using codeCompare_antisym codeCompare_trans by blast

subsection \<open>Slices and sorted arrays\<close>

lemma set_slice_subset: "set (slice xs start fin) \<subseteq> set xs"
  unfolding slice_def Let_def by (meson in_set_dropD in_set_takeD subsetI)

lemma set_Array_sort: "set (Array_sort cmp xs) = set xs"
  using mset_Array_sort[of cmp xs] by (rule mset_eq_setD)

lemma length_Array_sort: "length (Array_sort cmp xs) = length xs"
  using mset_Array_sort[of cmp xs] by (rule mset_eq_length)

lemma slice_empty: "int (length xs) \<le> skip \<or> topN = 0 \<Longrightarrow> slice xs skip (skip + topN) = []"
  by (auto simp: slice_def relative_index_def)

lemma sorted_page_empty:
  "int (length xs) \<le> skip \<or> topN = 0 \<Longrightarrow> slice (Array_sort cmp xs) skip (skip + topN) = []"
  by (rule slice_empty) (simp add: length_Array_sort)

lemma sorted_wrt_slice: "sorted_wrt P xs \<Longrightarrow> sorted_wrt P (slice xs start fin)"
  unfolding slice_def Let_def by (simp add: sorted_wrt_take sorted_wrt_drop)

lemma length_slice_from_0: "0 \<le> topN \<Longrightarrow> int (length (slice xs 0 topN)) \<le> topN"
  by (simp add: slice_def relative_index_def Let_def)

lemma consistent_flip: "consistent cmp S \<Longrightarrow> consistent (\<lambda>a b. cmp b a) S"
  unfolding consistent_def by blast

lemma consistent_key:
  "consistent cmp UNIV \<Longrightarrow> \<forall>a\<in>S. \<forall>b\<in>S. cmp' a b = cmp (key a) (key b) \<Longrightarrow> consistent cmp' S"
  unfolding consistent_def by (metis UNIV_I)

lemma sorted_stable_sort:
  "consistent cmp S \<Longrightarrow> set xs \<subseteq> S \<Longrightarrow> sorted_wrt (\<lambda>a b. cmp a b \<le> 0) (stable_sort cmp xs)"
  unfolding stable_sort_def by (rule sorted_insertion_sort) simp_all

lemma filter_stable_sort:
  "consistent cmp S \<Longrightarrow> set xs \<subseteq> S \<Longrightarrow> x \<in> S \<Longrightarrow>
   filter (\<lambda>y. cmp x y = 0) (stable_sort cmp xs) = filter (\<lambda>y. cmp x y = 0) xs"
  unfolding stable_sort_def using filter_insertion_sort[of cmp S "[]" xs x] by simp

lemma replace_prefix: "prefix pat s \<Longrightarrow> pat \<noteq> [] \<Longrightarrow> replace s pat rep = rep @ drop (length pat) s"
  by (cases s) auto

section \<open>Properties of the helpers\<close>

lemma short_name_of_branch:
  assumes "startsWith full ''refs/heads/''"
  shows "full = ''refs/heads/'' @ replace full ''refs/heads/'' []"
proof -
  have p: "prefix ''refs/heads/'' full" using assms by (simp add: startsWith_def)
  then obtain rest where "full = ''refs/heads/'' @ rest" by (auto simp: prefix_def)
  then show ?thesis using replace_prefix[OF p] by simp
qed

lemma branch_names_sound:
  assumes "short \<in> set (map (\<lambda>branch. replace branch ''refs/heads/'' [])
                  (filter (\<lambda>branch. startsWith branch ''refs/heads/'')
                     (concat (map (\<lambda>branch. if truthy_string (ref_name branch)
                                         then [the (ref_name branch)] else []) refs))))"
  shows "\<exists>branch\<in>set refs. ref_name branch = Some (''refs/heads/'' @ short)"
proof -
  obtain full where full: "short = replace full ''refs/heads/'' []" "startsWith full ''refs/heads/''"
    "full \<in> set (concat (map (\<lambda>branch. if truthy_string (ref_name branch)
                                         then [the (ref_name branch)] else []) refs))"
    using assms by auto
  then obtain branch where b: "branch \<in> set refs" "truthy_string (ref_name branch)"
      "full = the (ref_name branch)"
    by (auto split: if_splits)
  then have "ref_name branch = Some full" by (cases "ref_name branch") (auto simp: truthy_string_def)
  then show ?thesis using b(1) short_name_of_branch[OF full(2)] full(1) by auto
qed

lemma compare_named_repositories:
  "r_name a \<noteq> None \<Longrightarrow>
   compare_repository_names localeCompare a b = localeCompare (name_or_empty a) (name_or_empty b)"
  by (cases "r_name a") (simp_all add: compare_repository_names_def name_or_empty_def)

lemma consistent_compare_repository_names:
  assumes "consistent localeCompare UNIV"
  shows "consistent (compare_repository_names localeCompare) {repo. r_name repo \<noteq> None}"
  by (rule consistent_key[OF assms, where key = name_or_empty])
     (simp add: compare_named_repositories)

lemma try_catch_returns: "\<exists>r. try_catch body (\<lambda>error. error_result (f error)) = Returns r"
  by (cases body) (simp_all add: try_catch_def error_result_def)

lemma repo_criteria_explicit_user:
  "user \<noteq> [] \<Longrightarrow>
   list_pull_requests_by_repo_criteria env repositoryId created_by_me (Some user) i_am_reviewer
       status =
     (case pullRequestStatusStringToInt status of
        Inl error \<Rightarrow> Inl (Throws error)
      | Inr status_value \<Rightarrow>
          (case getUserIdFromEmail env user of
             Fulfilled userId \<Rightarrow>
               Inr \<lparr>sc_status = status_value, sc_repositoryId = repositoryId,
                    sc_creatorId = Some userId, sc_reviewerId = None\<rparr>
           | Rejected error \<Rightarrow>
               Inl (error_result (''Error finding user with email '' @ user @ '': '' @ error))))"
  by (simp add: list_pull_requests_by_repo_criteria_def truthy_string_def Let_def
      split: sum.splits settled.splits)

lemma project_criteria_explicit_user:
  "user \<noteq> [] \<Longrightarrow>
   list_pull_requests_by_project_criteria env created_by_me (Some user) i_am_reviewer status =
     (case pullRequestStatusStringToInt status of
        Inl error \<Rightarrow> Inl (Throws error)
      | Inr status_value \<Rightarrow>
          (case getUserIdFromEmail env user of
             Fulfilled userId \<Rightarrow>
               Inr \<lparr>psc_status = status_value, psc_creatorId = Some userId,
                    psc_reviewerId = None\<rparr>
           | Rejected error \<Rightarrow>
               Inl (error_result (''Error finding user with email '' @ user @ '': '' @ error))))"
  by (simp add: list_pull_requests_by_project_criteria_def truthy_string_def Let_def
      split: sum.splits settled.splits)

lemma branch_names_eq_short_branch_names:
  "map (\<lambda>branch. replace branch ''refs/heads/'' [])
     (filter (\<lambda>branch. startsWith branch ''refs/heads/'')
        (concat (map (\<lambda>branch. if truthy_string (ref_name branch)
                                then [the (ref_name branch)] else []) refs)))
   = short_branch_names refs"
proof (induction refs)
  case Nil
  then show ?case by (simp add: short_branch_names_def List.map_filter_simps)
next
  case (Cons r refs)
  have step: "map (\<lambda>branch. replace branch ''refs/heads/'' [])
      (filter (\<lambda>branch. startsWith branch ''refs/heads/'')
         (if truthy_string (ref_name r) then [the (ref_name r)] else []))
    = map (drop (length ''refs/heads/''))
        (filter (prefix ''refs/heads/'') (case ref_name r of None \<Rightarrow> [] | Some n \<Rightarrow> [n]))"
  proof (cases "ref_name r")
    case None
    then show ?thesis by (simp add: truthy_string_def)
  next
    case (Some n)
    show ?thesis
    proof (cases "prefix ''refs/heads/'' n")
      case True
      then have "n \<noteq> []" by auto
      moreover have "replace n ''refs/heads/'' [] = drop (length ''refs/heads/'') n"
        using replace_prefix[OF True, of "[]"] by simp
      ultimately show ?thesis using Some True by (simp add: truthy_string_def startsWith_def)
    next
      case False
      then show ?thesis using Some by (simp add: truthy_string_def startsWith_def)
    qed
  qed
  have mf: "List.map_filter ref_name (r # refs)
      = (case ref_name r of None \<Rightarrow> [] | Some n \<Rightarrow> [n]) @ List.map_filter ref_name refs"
    by (cases "ref_name r") (simp_all add: List.map_filter_simps)
  show ?case
    using Cons.IH step
    by (simp only: list.map concat.simps filter_append map_append mf short_branch_names_def)
qed

section \<open>The claims\<close>

subsection \<open>Paging\<close>

text \<open>
  C9, as stated, fails: a second application of the same slice skips again. On the list
  1, 2, 3 with \<open>skip = 1\<close> and \<open>top = 2\<close> the page is 2, 3 and the same slice of the page is 3.
\<close>

theorem slice_not_idempotent:
  "slice (slice [1, 2, 3 :: int] 1 (1 + 2)) 1 (1 + 2) \<noteq> slice [1, 2, 3 :: int] 1 (1 + 2)"
  by (simp add: slice_def relative_index_def)

text \<open>
  C9, amended. The listings of repositories, threads and comments answer with the page
  \<^verbatim>\<open>slice(skip, skip + top)\<close> of the sorted collection the backend returned. For \<open>skip\<close> and
  \<open>top\<close> that are not negative the page is the elements from position \<open>skip\<close> up to
  \<open>skip + top\<close>; whatever the values, a \<open>skip\<close> of at least the length of the collection
  gives the empty list, not an error, and so does a \<open>top\<close> of 0; taking the same page of a
  page changes nothing when \<open>skip\<close> is 0 and \<open>top\<close> is not negative.
\<close>

theorem paging_slice:
  "(0 \<le> skip \<and> 0 \<le> topN \<longrightarrow>
      slice xs skip (skip + topN) = take (nat topN) (drop (nat skip) xs)) \<and>
   (int (length xs) \<le> skip \<longrightarrow> slice xs skip (skip + topN) = []) \<and>
   slice xs skip (skip + 0) = [] \<and>
   (0 \<le> topN \<longrightarrow> slice (slice xs 0 (0 + topN)) 0 (0 + topN) = slice xs 0 (0 + topN)) \<and>
   (connectionProvider env = Fulfilled gitApi \<longrightarrow>
      (getRepositories gitApi project (Some False) (Some False) (Some False)
         = Fulfilled (Some repositories) \<and>
       (if truthy_string repoNameFilter
        then filterReposByName (Some repositories) (the repoNameFilter)
        else Some repositories) = Some candidates \<longrightarrow>
       list_repos_by_project localeCompare env project topN skip repoNameFilter
         = json_result
             (Some (map trimRepository
                      (slice (Array_sort (compare_repository_names localeCompare) candidates)
                         skip (skip + topN))))) \<and>
      (getThreads gitApi repositoryId pullRequestId project_opt iteration baseIteration
         = Fulfilled (Some threads) \<longrightarrow>
       list_pull_request_threads env repositoryId pullRequestId project_opt iteration
           baseIteration topN skip fullResponse
         = json_result
             (if fullResponse
              then Full (Some (slice (Array_sort (compare_ids t_id) threads) skip (skip + topN)))
              else Minimal
                     (Some (map trimThread
                              (slice (Array_sort (compare_ids t_id) threads)
                                 skip (skip + topN)))))) \<and>
      (getComments gitApi repositoryId pullRequestId thread_number project_opt
         = Fulfilled (Some comments) \<longrightarrow>
       list_pull_request_thread_comments env repositoryId pullRequestId thread_number
           project_opt topN skip fullResponse
         = json_result
             (if fullResponse
              then Full (Some (slice (Array_sort (compare_ids c_id) comments)
                                 skip (skip + topN)))
              else Minimal
                     (trimComments
                        (Some (slice (Array_sort (compare_ids c_id) comments)
                                 skip (skip + topN)))))) \<and>
      (getRepositories gitApi project (Some False) (Some False) (Some False)
         = Fulfilled (Some repositories) \<and>
       (int (length repositories) \<le> skip \<or> topN = 0) \<longrightarrow>
       list_repos_by_project localeCompare env project topN skip None = json_result (Some [])) \<and>
      (getThreads gitApi repositoryId pullRequestId project_opt iteration baseIteration
         = Fulfilled (Some threads) \<and>
       (int (length threads) \<le> skip \<or> topN = 0) \<longrightarrow>
       list_pull_request_threads env repositoryId pullRequestId project_opt iteration
           baseIteration topN skip fullResponse
         = json_result (if fullResponse then Full (Some []) else Minimal (Some []))) \<and>
      (getComments gitApi repositoryId pullRequestId thread_number project_opt
         = Fulfilled (Some comments) \<and>
       (int (length comments) \<le> skip \<or> topN = 0) \<longrightarrow>
       list_pull_request_thread_comments env repositoryId pullRequestId thread_number
           project_opt topN skip fullResponse
         = json_result (if fullResponse then Full (Some []) else Minimal (Some []))))"
proof (intro conjI impI)
  assume "0 \<le> skip \<and> 0 \<le> topN"
  then show "slice xs skip (skip + topN) = take (nat topN) (drop (nat skip) xs)"
    by (auto simp: slice_def relative_index_def Let_def min_def nat_add_distrib)
next
  assume "int (length xs) \<le> skip"
  then show "slice xs skip (skip + topN) = []"
    by (simp add: slice_def relative_index_def)
next
  show "slice xs skip (skip + 0) = []" by (simp add: slice_def)
next
  assume "0 \<le> topN"
  then show "slice (slice xs 0 (0 + topN)) 0 (0 + topN) = slice xs 0 (0 + topN)"
    by (simp add: slice_def relative_index_def Let_def min_def)
next
  assume a: "connectionProvider env = Fulfilled gitApi"
    and b: "getRepositories gitApi project (Some False) (Some False) (Some False)
         = Fulfilled (Some repositories) \<and>
       (if truthy_string repoNameFilter
        then filterReposByName (Some repositories) (the repoNameFilter)
        else Some repositories) = Some candidates"
  show "list_repos_by_project localeCompare env project topN skip repoNameFilter
         = json_result
             (Some (map trimRepository
                      (slice (Array_sort (compare_repository_names localeCompare) candidates)
                         skip (skip + topN))))"
    using a b by (simp add: list_repos_by_project_def await_def Let_def split: if_splits)
next
  assume a: "connectionProvider env = Fulfilled gitApi"
    and b: "getThreads gitApi repositoryId pullRequestId project_opt iteration baseIteration
         = Fulfilled (Some threads)"
  show "list_pull_request_threads env repositoryId pullRequestId project_opt iteration
           baseIteration topN skip fullResponse
         = json_result
             (if fullResponse
              then Full (Some (slice (Array_sort (compare_ids t_id) threads) skip (skip + topN)))
              else Minimal
                     (Some (map trimThread
                              (slice (Array_sort (compare_ids t_id) threads)
                                 skip (skip + topN)))))"
    using a b by (simp add: list_pull_request_threads_def await_def)
next
  assume a: "connectionProvider env = Fulfilled gitApi"
    and b: "getComments gitApi repositoryId pullRequestId thread_number project_opt
         = Fulfilled (Some comments)"
  show "list_pull_request_thread_comments env repositoryId pullRequestId thread_number
           project_opt topN skip fullResponse
         = json_result
             (if fullResponse
              then Full (Some (slice (Array_sort (compare_ids c_id) comments)
                                 skip (skip + topN)))
              else Minimal
                     (trimComments
                        (Some (slice (Array_sort (compare_ids c_id) comments)
                                 skip (skip + topN)))))"
    using a b by (simp add: list_pull_request_thread_comments_def await_def)
next
  assume a: "connectionProvider env = Fulfilled gitApi"
    and b: "getRepositories gitApi project (Some False) (Some False) (Some False)
         = Fulfilled (Some repositories) \<and>
       (int (length repositories) \<le> skip \<or> topN = 0)"
  have "slice (Array_sort (compare_repository_names localeCompare) repositories)
          skip (skip + topN) = []"
    using b by (intro sorted_page_empty) simp
  then show "list_repos_by_project localeCompare env project topN skip None = json_result (Some [])"
    using a b by (simp add: list_repos_by_project_def await_def truthy_string_def)
next
  assume a: "connectionProvider env = Fulfilled gitApi"
    and b: "getThreads gitApi repositoryId pullRequestId project_opt iteration baseIteration
         = Fulfilled (Some threads) \<and>
       (int (length threads) \<le> skip \<or> topN = 0)"
  have "slice (Array_sort (compare_ids t_id) threads) skip (skip + topN) = []"
    using b by (intro sorted_page_empty) simp
  then show "list_pull_request_threads env repositoryId pullRequestId project_opt iteration
           baseIteration topN skip fullResponse
         = json_result (if fullResponse then Full (Some []) else Minimal (Some []))"
    using a b by (simp add: list_pull_request_threads_def await_def)
next
  assume a: "connectionProvider env = Fulfilled gitApi"
    and b: "getComments gitApi repositoryId pullRequestId thread_number project_opt
         = Fulfilled (Some comments) \<and>
       (int (length comments) \<le> skip \<or> topN = 0)"
  have "slice (Array_sort (compare_ids c_id) comments) skip (skip + topN) = []"
    using b by (intro sorted_page_empty) simp
  then show "list_pull_request_thread_comments env repositoryId pullRequestId thread_number
           project_opt topN skip fullResponse
         = json_result (if fullResponse then Full (Some []) else Minimal (Some []))"
    using a b by (simp add: list_pull_request_thread_comments_def await_def trimComments_def)
qed

theorem paging_slice_witness:
  "slice [10, 20, 30, 40 :: int] 1 (1 + 2) = [20, 30] \<and>
   slice [10, 20, 30, 40 :: int] 4 (4 + 2) = [] \<and>
   slice [10, 20, 30, 40 :: int] 1 (1 + 0) = [] \<and>
   slice (slice [10, 20, 30, 40 :: int] 0 (0 + 2)) 0 (0 + 2) = [10, 20] \<and>
   list_pull_request_thread_comments sample_providers ''R'' 5 7 None 1 1 True
     = json_result (Full (Some [sample_comment 2 ''gone'' (Some True)])) \<and>
   list_pull_request_thread_comments sample_providers ''R'' 5 7 None 100 2 False
     = json_result (Minimal (Some [])) \<and>
   list_repos_by_project codeCompare sample_providers ''Q'' 1 1 None
     = json_result (Some [trimRepository (sample_repository ''1'' (Some ''b''))]) \<and>
   list_repos_by_project codeCompare sample_providers ''Q'' 0 1 None = json_result (Some [])"
proof -
  have conn: "connectionProvider sample_providers = Fulfilled sample_api"
    by (simp add: sample_providers_def)
  let ?repos = "[sample_repository ''1'' (Some ''b''), sample_repository ''2'' (Some ''c''),
                 sample_repository ''3'' (Some ''a'')]"
  let ?comments = "[sample_comment 2 ''gone'' (Some True),
                    sample_comment 1 ''kept'' (Some False)]"
  let ?threads = "[sample_thread 7 ?comments]"
  have sorted_comments: "Array_sort (compare_ids c_id) ?comments
      = [sample_comment 1 ''kept'' (Some False), sample_comment 2 ''gone'' (Some True)]"
    by (simp add: Array_sort_def compare_ids_def sample_comment_def)
  have sorted_repos: "Array_sort (compare_repository_names codeCompare) ?repos
      = [sample_repository ''3'' (Some ''a''), sample_repository ''1'' (Some ''b''),
         sample_repository ''2'' (Some ''c'')]"
    by (simp add: Array_sort_def compare_repository_names_def sample_repository_def Let_def
        find_insertion_point.simps)
  note page = paging_slice [where xs = "[10, 20, 30, 40 :: int]" and skip = 1 and topN = 2
      and env = sample_providers and gitApi = sample_api and project = "''Q''"
      and localeCompare = codeCompare and repositoryId = "''R''" and pullRequestId = 5
      and thread_number = 7 and project_opt = None and fullResponse = False
      and iteration = None and baseIteration = None and repoNameFilter = None
      and repositories = ?repos and candidates = ?repos and threads = ?threads
      and comments = ?comments]
  note past = paging_slice [where xs = "[10, 20, 30, 40 :: int]" and skip = 4 and topN = 2
      and env = sample_providers and gitApi = sample_api and project = "''Q''"
      and localeCompare = codeCompare and repositoryId = "''R''" and pullRequestId = 5
      and thread_number = 7 and project_opt = None and fullResponse = False
      and iteration = None and baseIteration = None and repoNameFilter = None
      and repositories = ?repos and candidates = ?repos and threads = ?threads
      and comments = ?comments]
  note first = paging_slice [where xs = "[10, 20, 30, 40 :: int]" and skip = 0 and topN = 2
      and env = sample_providers and gitApi = sample_api and project = "''Q''"
      and localeCompare = codeCompare and repositoryId = "''R''" and pullRequestId = 5
      and thread_number = 7 and project_opt = None and fullResponse = False
      and iteration = None and baseIteration = None and repoNameFilter = None
      and repositories = ?repos and candidates = ?repos and threads = ?threads
      and comments = ?comments]
  note second = paging_slice [where xs = "[10, 20, 30, 40 :: int]" and skip = 1 and topN = 1
      and env = sample_providers and gitApi = sample_api and project = "''Q''"
      and localeCompare = codeCompare and repositoryId = "''R''" and pullRequestId = 5
      and thread_number = 7 and project_opt = None and fullResponse = True
      and iteration = None and baseIteration = None and repoNameFilter = None
      and repositories = ?repos and candidates = ?repos and threads = ?threads
      and comments = ?comments]
  note beyond = paging_slice [where xs = "[10, 20, 30, 40 :: int]" and skip = 2
      and topN = 100
      and env = sample_providers and gitApi = sample_api and project = "''Q''"
      and localeCompare = codeCompare and repositoryId = "''R''" and pullRequestId = 5
      and thread_number = 7 and project_opt = None and fullResponse = False
      and iteration = None and baseIteration = None and repoNameFilter = None
      and repositories = ?repos and candidates = ?repos and threads = ?threads
      and comments = ?comments]
  note none = paging_slice [where xs = "[10, 20, 30, 40 :: int]" and skip = 1 and topN = 0
      and env = sample_providers and gitApi = sample_api and project = "''Q''"
      and localeCompare = codeCompare and repositoryId = "''R''" and pullRequestId = 5
      and thread_number = 7 and project_opt = None and fullResponse = False
      and iteration = None and baseIteration = None and repoNameFilter = None
      and repositories = ?repos and candidates = ?repos and threads = ?threads
      and comments = ?comments]
  have 1: "slice [10, 20, 30, 40 :: int] 1 (1 + 2) = [20, 30]"
    using page by (simp add: slice_def relative_index_def)
  have 2: "slice [10, 20, 30, 40 :: int] 4 (4 + 2) = []"
    using past by (simp add: slice_def relative_index_def)
  have 3: "slice [10, 20, 30, 40 :: int] 1 (1 + 0) = []"
    using page by (simp add: slice_def relative_index_def)
  have 4: "slice (slice [10, 20, 30, 40 :: int] 0 (0 + 2)) 0 (0 + 2) = [10, 20]"
    using first by (simp add: slice_def relative_index_def)
  have 5: "list_pull_request_thread_comments sample_providers ''R'' 5 7 None 1 1 True
     = json_result (Full (Some [sample_comment 2 ''gone'' (Some True)]))"
    using second conn sorted_comments
    by (simp add: sample_api_def truthy_string_def slice_def relative_index_def)
  have 6: "list_pull_request_thread_comments sample_providers ''R'' 5 7 None 100 2 False
     = json_result (Minimal (Some []))"
    using beyond conn sorted_comments
    by (simp add: sample_api_def truthy_string_def slice_def relative_index_def
        trimComments_def)
  have 7: "list_repos_by_project codeCompare sample_providers ''Q'' 1 1 None
     = json_result (Some [trimRepository (sample_repository ''1'' (Some ''b''))])"
    using second conn sorted_repos
    by (simp add: sample_api_def truthy_string_def slice_def relative_index_def)
  have 8: "list_repos_by_project codeCompare sample_providers ''Q'' 0 1 None
     = json_result (Some [])"
    using none conn sorted_repos
    by (simp add: sample_api_def truthy_string_def slice_def relative_index_def)
  show ?thesis using 1 2 3 4 5 6 7 8 by simp
qed

subsection \<open>The status of a new thread\<close>


subsection \<open>Deleted comments\<close>

text \<open>
  C1, as stated, fails on the full response: with \<^verbatim>\<open>fullResponse\<close> set, both tools answer with
  the page of backend objects as it is. The sample thread holds the deleted comment 2 and the
  comment 1; both come back, the deleted one included.
\<close>

theorem full_response_keeps_deleted_comments:
  "list_pull_request_thread_comments sample_providers ''R'' 5 7 None 100 0 True
     = json_result (Full (Some [sample_comment 1 ''kept'' (Some False),
                                sample_comment 2 ''gone'' (Some True)])) \<and>
   truthy_boolean (c_isDeleted (sample_comment 2 ''gone'' (Some True))) \<and>
   list_pull_request_threads sample_providers ''R'' 5 None None None 100 0 True
     = json_result (Full (Some [sample_thread 7 [sample_comment 2 ''gone'' (Some True),
                                                sample_comment 1 ''kept'' (Some False)]]))"
  by (simp add: list_pull_request_thread_comments_def list_pull_request_threads_def
      sample_providers_def sample_api_def await_def Array_sort_def slice_def relative_index_def
      compare_ids_def sample_comment_def truthy_boolean_def Let_def
      find_insertion_point.simps)

text \<open>
  C1, amended. In the minimal projection of \<^verbatim>\<open>list_pull_request_thread_comments\<close> and of
  \<^verbatim>\<open>list_pull_request_threads\<close> every comment is the trimmed form of a backend comment whose
  deletion flag is not set. The full response is the sorted page of the backend objects,
  unchanged, whatever their deletion flags.
\<close>

theorem minimal_projection_drops_deleted_comments:
  assumes "connectionProvider env = Fulfilled gitApi"
  shows
  "(getComments gitApi repositoryId pullRequestId threadId project = Fulfilled (Some cs) \<longrightarrow>
      (\<exists>out. list_pull_request_thread_comments env repositoryId pullRequestId threadId project
                topN skip False = json_result (Minimal (Some out)) \<and>
             (\<forall>trimmed\<in>set out. \<exists>comment\<in>set cs.
                \<not> truthy_boolean (c_isDeleted comment) \<and> trimmed = trimComment comment)) \<and>
      list_pull_request_thread_comments env repositoryId pullRequestId threadId project
          topN skip True
        = json_result (Full (Some (slice (Array_sort (compare_ids c_id) cs) skip (skip + topN))))) \<and>
   (getThreads gitApi repositoryId pullRequestId project iteration baseIteration
      = Fulfilled (Some ts) \<longrightarrow>
      (\<exists>out. list_pull_request_threads env repositoryId pullRequestId project iteration
                baseIteration topN skip False = json_result (Minimal (Some out)) \<and>
             (\<forall>trimmed_thread\<in>set out. \<exists>thread\<in>set ts.
                trimmed_thread = trimThread thread \<and>
                (\<forall>trimmed_comments. tt_comments trimmed_thread = Some trimmed_comments \<longrightarrow>
                   (\<exists>comments. t_comments thread = Some comments \<and>
                      (\<forall>trimmed\<in>set trimmed_comments. \<exists>comment\<in>set comments.
                         \<not> truthy_boolean (c_isDeleted comment) \<and>
                         trimmed = trimComment comment))))) \<and>
      list_pull_request_threads env repositoryId pullRequestId project iteration baseIteration
          topN skip True
        = json_result (Full (Some (slice (Array_sort (compare_ids t_id) ts) skip (skip + topN)))))"
proof (intro conjI impI)
  assume c: "getComments gitApi repositoryId pullRequestId threadId project = Fulfilled (Some cs)"
  let ?page = "slice (Array_sort (compare_ids c_id) cs) skip (skip + topN)"
  let ?out = "map trimComment (filter (\<lambda>comment. \<not> truthy_boolean (c_isDeleted comment)) ?page)"
  have sub: "set ?page \<subseteq> set cs" using set_slice_subset set_Array_sort by fastforce
  have "list_pull_request_thread_comments env repositoryId pullRequestId threadId project
          topN skip False = json_result (Minimal (Some ?out))"
    using assms c by (simp add: list_pull_request_thread_comments_def await_def trimComments_def)
  moreover have "\<forall>trimmed\<in>set ?out. \<exists>comment\<in>set cs.
      \<not> truthy_boolean (c_isDeleted comment) \<and> trimmed = trimComment comment"
    using sub by auto
  ultimately show "\<exists>out. list_pull_request_thread_comments env repositoryId pullRequestId threadId
      project topN skip False = json_result (Minimal (Some out)) \<and>
      (\<forall>trimmed\<in>set out. \<exists>comment\<in>set cs.
          \<not> truthy_boolean (c_isDeleted comment) \<and> trimmed = trimComment comment)"
    by blast
  show "list_pull_request_thread_comments env repositoryId pullRequestId threadId project
          topN skip True
        = json_result (Full (Some (slice (Array_sort (compare_ids c_id) cs) skip (skip + topN))))"
    using assms c by (simp add: list_pull_request_thread_comments_def await_def)
next
  assume t: "getThreads gitApi repositoryId pullRequestId project iteration baseIteration
      = Fulfilled (Some ts)"
  let ?page = "slice (Array_sort (compare_ids t_id) ts) skip (skip + topN)"
  have sub: "set ?page \<subseteq> set ts" using set_slice_subset set_Array_sort by fastforce
  have out: "list_pull_request_threads env repositoryId pullRequestId project iteration
      baseIteration topN skip False = json_result (Minimal (Some (map trimThread ?page)))"
    using assms t by (simp add: list_pull_request_threads_def await_def)
  have each: "\<forall>trimmed_thread\<in>set (map trimThread ?page). \<exists>thread\<in>set ts.
      trimmed_thread = trimThread thread \<and>
      (\<forall>trimmed_comments. tt_comments trimmed_thread = Some trimmed_comments \<longrightarrow>
         (\<exists>comments. t_comments thread = Some comments \<and>
            (\<forall>trimmed\<in>set trimmed_comments. \<exists>comment\<in>set comments.
               \<not> truthy_boolean (c_isDeleted comment) \<and> trimmed = trimComment comment)))"
  proof
    fix trimmed_thread assume "trimmed_thread \<in> set (map trimThread ?page)"
    then obtain thread where th: "thread \<in> set ts" "trimmed_thread = trimThread thread"
      using sub by auto
    have "\<forall>trimmed_comments. tt_comments (trimThread thread) = Some trimmed_comments \<longrightarrow>
         (\<exists>comments. t_comments thread = Some comments \<and>
            (\<forall>trimmed\<in>set trimmed_comments. \<exists>comment\<in>set comments.
               \<not> truthy_boolean (c_isDeleted comment) \<and> trimmed = trimComment comment))"
      by (cases "t_comments thread") (auto simp: trimThread_def trimComments_def)
    then show "\<exists>thread\<in>set ts.
      trimmed_thread = trimThread thread \<and>
      (\<forall>trimmed_comments. tt_comments trimmed_thread = Some trimmed_comments \<longrightarrow>
         (\<exists>comments. t_comments thread = Some comments \<and>
            (\<forall>trimmed\<in>set trimmed_comments. \<exists>comment\<in>set comments.
               \<not> truthy_boolean (c_isDeleted comment) \<and> trimmed = trimComment comment)))"
      using th by blast
  qed
  show "\<exists>out. list_pull_request_threads env repositoryId pullRequestId project iteration
                baseIteration topN skip False = json_result (Minimal (Some out)) \<and>
             (\<forall>trimmed_thread\<in>set out. \<exists>thread\<in>set ts.
                trimmed_thread = trimThread thread \<and>
                (\<forall>trimmed_comments. tt_comments trimmed_thread = Some trimmed_comments \<longrightarrow>
                   (\<exists>comments. t_comments thread = Some comments \<and>
                      (\<forall>trimmed\<in>set trimmed_comments. \<exists>comment\<in>set comments.
                         \<not> truthy_boolean (c_isDeleted comment) \<and>
                         trimmed = trimComment comment))))"
    using out each by blast
  show "list_pull_request_threads env repositoryId pullRequestId project iteration baseIteration
          topN skip True
        = json_result (Full (Some (slice (Array_sort (compare_ids t_id) ts) skip (skip + topN))))"
    using assms t by (simp add: list_pull_request_threads_def await_def)
qed

theorem minimal_projection_drops_deleted_comments_witness:
  "list_pull_request_thread_comments sample_providers ''R'' 5 7 None 100 0 False
     = json_result (Minimal (Some [trimComment (sample_comment 1 ''kept'' (Some False))])) \<and>
   list_pull_request_threads sample_providers ''R'' 5 None None None 100 0 False
     = json_result
         (Minimal (Some [\<lparr>tt_id = Some 7, tt_publishedDate = None, tt_lastUpdatedDate = None,
                          tt_status = Some Active_thread, tt_threadContext = None,
                          tt_comments =
                            Some [trimComment (sample_comment 1 ''kept'' (Some False))]\<rparr>]))"
proof -
  have conn: "connectionProvider sample_providers = Fulfilled sample_api"
    by (simp add: sample_providers_def)
  note inst = minimal_projection_drops_deleted_comments [OF conn,
      of "''R''" 5 7 None "[sample_comment 2 ''gone'' (Some True),
                            sample_comment 1 ''kept'' (Some False)]" 100 0 None None
         "[sample_thread 7 [sample_comment 2 ''gone'' (Some True),
                            sample_comment 1 ''kept'' (Some False)]]"]
  show ?thesis
    using inst
    by (simp add: list_pull_request_thread_comments_def list_pull_request_threads_def
      sample_providers_def sample_api_def await_def Array_sort_def slice_def relative_index_def
      compare_ids_def sample_comment_def sample_thread_def truthy_boolean_def trimComments_def
      trimThread_def json_result_def Let_def)
qed

subsection \<open>Errors\<close>

text \<open>
  C2, as stated, fails: \<^verbatim>\<open>get_repo_by_name_or_id\<close> throws when no repository matches, and no
  handler code catches it.
\<close>

theorem repository_not_found_is_thrown:
  "get_repo_by_name_or_id sample_providers ''P'' ''missing''
     = Throws ''Repository missing not found in project P''"
  by (simp add: get_repo_by_name_or_id_def sample_providers_def sample_api_def await_def
      sample_repository_def)

text \<open>
  C2, amended. An error becomes an error-flagged envelope only where the handler guards it.
  \<^verbatim>\<open>search_commits\<close>, \<^verbatim>\<open>list_pull_requests_by_commits\<close> and \<^verbatim>\<open>create_pull_request_comment\<close>
  always return an envelope; when the connection or their backend call (\<^verbatim>\<open>getCommits\<close>,
  \<^verbatim>\<open>getPullRequestQuery\<close>, \<^verbatim>\<open>createComment\<close>, \<^verbatim>\<open>createThread\<close>) fails, it is error-flagged and
  carries the message. \<^verbatim>\<open>get_branch_by_name\<close> returns an error-flagged envelope when no branch
  matches, and the two pull request listings return one when the lookup of
  \<^verbatim>\<open>created_by_user\<close> fails. The other errors leave the handler as an exception: a failed
  connection in each of the other ten tools; the failed backend call of each of them
  (\<^verbatim>\<open>getRepositories\<close>, \<^verbatim>\<open>getPullRequests\<close>, \<^verbatim>\<open>getPullRequestsByProject\<close>, \<^verbatim>\<open>getThreads\<close>,
  \<^verbatim>\<open>getComments\<close>, \<^verbatim>\<open>getRefs\<close>, \<^verbatim>\<open>getPullRequest\<close>); no matching repository in
  \<^verbatim>\<open>get_repo_by_name_or_id\<close>; and a failed lookup of the calling user in the two pull request
  listings.
\<close>

theorem errors_caught_where_guarded:
  "(\<exists>r. search_commits env project repository fromCommit toCommit v vt skip topN il iw
          = Returns r) \<and>
   (\<exists>r. list_pull_requests_by_commits env project repository commits queryType = Returns r) \<and>
   (\<exists>r. create_pull_request_comment env repositoryId pullRequestId text_content threadId status
          fp lineStart lineEnd project_opt = Returns r) \<and>
   (connectionProvider env = Rejected e \<longrightarrow>
      search_commits env project repository fromCommit toCommit v vt skip topN il iw
        = error_result (''Error searching commits: '' @ e) \<and>
      list_pull_requests_by_commits env project repository commits queryType
        = error_result (''Error querying pull requests by commits: '' @ e) \<and>
      create_pull_request_comment env repositoryId pullRequestId text_content threadId status
          fp lineStart lineEnd project_opt
        = error_result (''Error creating comment: '' @ e) \<and>
      list_repos_by_project localeCompare env project topN skip repoNameFilter = Throws e \<and>
      list_pull_requests_by_repo env repositoryId topN skip created_by_me created_by_user
          i_am_reviewer pr_status_name = Throws e \<and>
      list_pull_requests_by_project env project topN skip created_by_me created_by_user
          i_am_reviewer pr_status_name = Throws e \<and>
      list_pull_request_threads env repositoryId pullRequestId project_opt iteration
          baseIteration topN skip fullResponse = Throws e \<and>
      list_pull_request_thread_comments env repositoryId pullRequestId thread_number project_opt
          topN skip fullResponse = Throws e \<and>
      list_branches_by_repo localeCompare env repositoryId topN filterContains = Throws e \<and>
      list_my_branches_by_repo localeCompare env repositoryId topN filterContains = Throws e \<and>
      get_repo_by_name_or_id env project repositoryNameOrId = Throws e \<and>
      get_branch_by_name env repositoryId branchName = Throws e \<and>
      get_pull_request_by_id env repositoryId pullRequestId includeWorkItemRefs = Throws e) \<and>
   (connectionProvider env = Fulfilled gitApi \<longrightarrow>
      (getCommits gitApi repository
         (search_commits_criteria fromCommit toCommit v vt il iw) project skip topN = Rejected e
       \<longrightarrow> search_commits env project repository fromCommit toCommit v vt skip topN il iw
             = error_result (''Error searching commits: '' @ e)) \<and>
      (getPullRequestQuery gitApi
         \<lparr>queries = Some [\<lparr>items = Some commits,
                           query_type = GitPullRequestQueryType_of_key queryType\<rparr>],
          results = None\<rparr> repository project = Rejected e
       \<longrightarrow> list_pull_requests_by_commits env project repository commits queryType
             = error_result (''Error querying pull requests by commits: '' @ e)) \<and>
      (truthy_number threadId \<and>
       createComment gitApi (new_comment text_content) repositoryId pullRequestId
         (the threadId) project_opt = Rejected e
       \<longrightarrow> create_pull_request_comment env repositoryId pullRequestId text_content threadId
               status fp lineStart lineEnd project_opt
             = error_result (''Error creating comment: '' @ e)) \<and>
      (\<not> truthy_number threadId \<and>
       createThread gitApi (new_thread_data text_content status fp lineStart lineEnd)
         repositoryId pullRequestId project_opt = Rejected e
       \<longrightarrow> create_pull_request_comment env repositoryId pullRequestId text_content threadId
               status fp lineStart lineEnd project_opt
             = error_result (''Error creating comment: '' @ e)) \<and>
      (getRefs gitApi repositoryId ''heads/'' (Some False) (Some False) None (Some False)
         (Some branchName) = Fulfilled (Some refs) \<and>
       find (\<lambda>branch. ref_name branch = Some (''refs/heads/'' @ branchName)
                     \<or> ref_name branch = Some branchName) refs = None
       \<longrightarrow> get_branch_by_name env repositoryId branchName
             = error_result
                 (''Branch '' @ branchName @ '' not found in repository '' @ repositoryId)) \<and>
      (pullRequestStatusStringToInt pr_status_name = Inr status_value \<and>
       truthy_string created_by_user \<and>
       getUserIdFromEmail env (the created_by_user) = Rejected e
       \<longrightarrow> list_pull_requests_by_repo env repositoryId topN skip created_by_me created_by_user
               i_am_reviewer pr_status_name
             = error_result
                 (''Error finding user with email '' @ the created_by_user @ '': '' @ e) \<and>
           list_pull_requests_by_project env project topN skip created_by_me created_by_user
               i_am_reviewer pr_status_name
             = error_result
                 (''Error finding user with email '' @ the created_by_user @ '': '' @ e)) \<and>
      (getRepositories gitApi project None None None = Fulfilled (Some repositories) \<and>
       find (\<lambda>repo. r_name repo = Some repositoryNameOrId \<or> r_id repo = Some repositoryNameOrId)
         repositories = None
       \<longrightarrow> get_repo_by_name_or_id env project repositoryNameOrId
             = Throws (''Repository '' @ repositoryNameOrId @ '' not found in project ''
                         @ project)) \<and>
      (getRepositories gitApi project None None None = Rejected e
       \<longrightarrow> get_repo_by_name_or_id env project repositoryNameOrId = Throws e) \<and>
      (pullRequestStatusStringToInt pr_status_name = Inr status_value \<and>
       \<not> truthy_string created_by_user \<and> (created_by_me \<or> i_am_reviewer) \<and>
       getCurrentUserDetails env = Rejected e
       \<longrightarrow> list_pull_requests_by_repo env repositoryId topN skip created_by_me created_by_user
               i_am_reviewer pr_status_name = Throws e \<and>
           list_pull_requests_by_project env project topN skip created_by_me created_by_user
               i_am_reviewer pr_status_name = Throws e) \<and>
      (getRepositories gitApi project (Some False) (Some False) (Some False) = Rejected e
       \<longrightarrow> list_repos_by_project localeCompare env project topN skip repoNameFilter
             = Throws e) \<and>
      ((list_pull_requests_by_repo_criteria env repositoryId created_by_me created_by_user
          i_am_reviewer pr_status_name
          :: TrimmedPullRequest list option outcome + PullRequestSearchCriteria)
         = Inr searchCriteria \<and>
       getPullRequests gitApi repositoryId searchCriteria skip topN = Rejected e
       \<longrightarrow> list_pull_requests_by_repo env repositoryId topN skip created_by_me created_by_user
               i_am_reviewer pr_status_name = Throws e) \<and>
      ((list_pull_requests_by_project_criteria env created_by_me created_by_user
          i_am_reviewer pr_status_name
          :: TrimmedProjectPullRequest list option outcome + ProjectPullRequestSearchCriteria)
         = Inr projectCriteria \<and>
       getPullRequestsByProject gitApi project projectCriteria skip topN = Rejected e
       \<longrightarrow> list_pull_requests_by_project env project topN skip created_by_me created_by_user
               i_am_reviewer pr_status_name = Throws e) \<and>
      (getThreads gitApi repositoryId pullRequestId project_opt iteration baseIteration
         = Rejected e
       \<longrightarrow> list_pull_request_threads env repositoryId pullRequestId project_opt iteration
               baseIteration topN skip fullResponse = Throws e) \<and>
      (getComments gitApi repositoryId pullRequestId thread_number project_opt = Rejected e
       \<longrightarrow> list_pull_request_thread_comments env repositoryId pullRequestId thread_number
               project_opt topN skip fullResponse = Throws e) \<and>
      (getRefs gitApi repositoryId ''heads/'' None None None None filterContains = Rejected e
       \<longrightarrow> list_branches_by_repo localeCompare env repositoryId topN filterContains
             = Throws e) \<and>
      (getRefs gitApi repositoryId ''heads/'' None None (Some True) None filterContains
         = Rejected e
       \<longrightarrow> list_my_branches_by_repo localeCompare env repositoryId topN filterContains
             = Throws e) \<and>
      (getRefs gitApi repositoryId ''heads/'' (Some False) (Some False) None (Some False)
         (Some branchName) = Rejected e
       \<longrightarrow> get_branch_by_name env repositoryId branchName = Throws e) \<and>
      (getPullRequest gitApi repositoryId pullRequestId includeWorkItemRefs = Rejected e
       \<longrightarrow> get_pull_request_by_id env repositoryId pullRequestId includeWorkItemRefs
             = Throws e))"
proof (intro conjI)
  show "\<exists>r. search_commits env project repository fromCommit toCommit v vt skip topN il iw
          = Returns r"
    unfolding search_commits_def by (rule try_catch_returns)
  show "\<exists>r. list_pull_requests_by_commits env project repository commits queryType = Returns r"
    unfolding list_pull_requests_by_commits_def by (rule try_catch_returns)
  show "\<exists>r. create_pull_request_comment env repositoryId pullRequestId text_content threadId status
          fp lineStart lineEnd project_opt = Returns r"
    unfolding create_pull_request_comment_def by (rule try_catch_returns)
  show "connectionProvider env = Rejected e \<longrightarrow>
      search_commits env project repository fromCommit toCommit v vt skip topN il iw
        = error_result (''Error searching commits: '' @ e) \<and>
      list_pull_requests_by_commits env project repository commits queryType
        = error_result (''Error querying pull requests by commits: '' @ e) \<and>
      create_pull_request_comment env repositoryId pullRequestId text_content threadId status
          fp lineStart lineEnd project_opt
        = error_result (''Error creating comment: '' @ e) \<and>
      list_repos_by_project localeCompare env project topN skip repoNameFilter = Throws e \<and>
      list_pull_requests_by_repo env repositoryId topN skip created_by_me created_by_user
          i_am_reviewer pr_status_name = Throws e \<and>
      list_pull_requests_by_project env project topN skip created_by_me created_by_user
          i_am_reviewer pr_status_name = Throws e \<and>
      list_pull_request_threads env repositoryId pullRequestId project_opt iteration
          baseIteration topN skip fullResponse = Throws e \<and>
      list_pull_request_thread_comments env repositoryId pullRequestId thread_number project_opt
          topN skip fullResponse = Throws e \<and>
      list_branches_by_repo localeCompare env repositoryId topN filterContains = Throws e \<and>
      list_my_branches_by_repo localeCompare env repositoryId topN filterContains = Throws e \<and>
      get_repo_by_name_or_id env project repositoryNameOrId = Throws e \<and>
      get_branch_by_name env repositoryId branchName = Throws e \<and>
      get_pull_request_by_id env repositoryId pullRequestId includeWorkItemRefs = Throws e"
    by (simp add: search_commits_def list_pull_requests_by_commits_def
        create_pull_request_comment_def list_repos_by_project_def list_pull_requests_by_repo_def
        list_pull_requests_by_project_def list_pull_request_threads_def
        list_pull_request_thread_comments_def list_branches_by_repo_def
        list_my_branches_by_repo_def get_repo_by_name_or_id_def get_branch_by_name_def
        get_pull_request_by_id_def try_catch_def await_def)
  show "connectionProvider env = Fulfilled gitApi \<longrightarrow>
      (getCommits gitApi repository
         (search_commits_criteria fromCommit toCommit v vt il iw) project skip topN = Rejected e
       \<longrightarrow> search_commits env project repository fromCommit toCommit v vt skip topN il iw
             = error_result (''Error searching commits: '' @ e)) \<and>
      (getPullRequestQuery gitApi
         \<lparr>queries = Some [\<lparr>items = Some commits,
                           query_type = GitPullRequestQueryType_of_key queryType\<rparr>],
          results = None\<rparr> repository project = Rejected e
       \<longrightarrow> list_pull_requests_by_commits env project repository commits queryType
             = error_result (''Error querying pull requests by commits: '' @ e)) \<and>
      (truthy_number threadId \<and>
       createComment gitApi (new_comment text_content) repositoryId pullRequestId
         (the threadId) project_opt = Rejected e
       \<longrightarrow> create_pull_request_comment env repositoryId pullRequestId text_content threadId
               status fp lineStart lineEnd project_opt
             = error_result (''Error creating comment: '' @ e)) \<and>
      (\<not> truthy_number threadId \<and>
       createThread gitApi (new_thread_data text_content status fp lineStart lineEnd)
         repositoryId pullRequestId project_opt = Rejected e
       \<longrightarrow> create_pull_request_comment env repositoryId pullRequestId text_content threadId
               status fp lineStart lineEnd project_opt
             = error_result (''Error creating comment: '' @ e)) \<and>
      (getRefs gitApi repositoryId ''heads/'' (Some False) (Some False) None (Some False)
         (Some branchName) = Fulfilled (Some refs) \<and>
       find (\<lambda>branch. ref_name branch = Some (''refs/heads/'' @ branchName)
                     \<or> ref_name branch = Some branchName) refs = None
       \<longrightarrow> get_branch_by_name env repositoryId branchName
             = error_result
                 (''Branch '' @ branchName @ '' not found in repository '' @ repositoryId)) \<and>
      (pullRequestStatusStringToInt pr_status_name = Inr status_value \<and>
       truthy_string created_by_user \<and>
       getUserIdFromEmail env (the created_by_user) = Rejected e
       \<longrightarrow> list_pull_requests_by_repo env repositoryId topN skip created_by_me created_by_user
               i_am_reviewer pr_status_name
             = error_result
                 (''Error finding user with email '' @ the created_by_user @ '': '' @ e) \<and>
           list_pull_requests_by_project env project topN skip created_by_me created_by_user
               i_am_reviewer pr_status_name
             = error_result
                 (''Error finding user with email '' @ the created_by_user @ '': '' @ e)) \<and>
      (getRepositories gitApi project None None None = Fulfilled (Some repositories) \<and>
       find (\<lambda>repo. r_name repo = Some repositoryNameOrId \<or> r_id repo = Some repositoryNameOrId)
         repositories = None
       \<longrightarrow> get_repo_by_name_or_id env project repositoryNameOrId
             = Throws (''Repository '' @ repositoryNameOrId @ '' not found in project ''
                         @ project)) \<and>
      (getRepositories gitApi project None None None = Rejected e
       \<longrightarrow> get_repo_by_name_or_id env project repositoryNameOrId = Throws e) \<and>
      (pullRequestStatusStringToInt pr_status_name = Inr status_value \<and>
       \<not> truthy_string created_by_user \<and> (created_by_me \<or> i_am_reviewer) \<and>
       getCurrentUserDetails env = Rejected e
       \<longrightarrow> list_pull_requests_by_repo env repositoryId topN skip created_by_me created_by_user
               i_am_reviewer pr_status_name = Throws e \<and>
           list_pull_requests_by_project env project topN skip created_by_me created_by_user
               i_am_reviewer pr_status_name = Throws e) \<and>
      (getRepositories gitApi project (Some False) (Some False) (Some False) = Rejected e
       \<longrightarrow> list_repos_by_project localeCompare env project topN skip repoNameFilter
             = Throws e) \<and>
      ((list_pull_requests_by_repo_criteria env repositoryId created_by_me created_by_user
          i_am_reviewer pr_status_name
          :: TrimmedPullRequest list option outcome + PullRequestSearchCriteria)
         = Inr searchCriteria \<and>
       getPullRequests gitApi repositoryId searchCriteria skip topN = Rejected e
       \<longrightarrow> list_pull_requests_by_repo env repositoryId topN skip created_by_me created_by_user
               i_am_reviewer pr_status_name = Throws e) \<and>
      ((list_pull_requests_by_project_criteria env created_by_me created_by_user
          i_am_reviewer pr_status_name
          :: TrimmedProjectPullRequest list option outcome + ProjectPullRequestSearchCriteria)
         = Inr projectCriteria \<and>
       getPullRequestsByProject gitApi project projectCriteria skip topN = Rejected e
       \<longrightarrow> list_pull_requests_by_project env project topN skip created_by_me created_by_user
               i_am_reviewer pr_status_name = Throws e) \<and>
      (getThreads gitApi repositoryId pullRequestId project_opt iteration baseIteration
         = Rejected e
       \<longrightarrow> list_pull_request_threads env repositoryId pullRequestId project_opt iteration
               baseIteration topN skip fullResponse = Throws e) \<and>
      (getComments gitApi repositoryId pullRequestId thread_number project_opt = Rejected e
       \<longrightarrow> list_pull_request_thread_comments env repositoryId pullRequestId thread_number
               project_opt topN skip fullResponse = Throws e) \<and>
      (getRefs gitApi repositoryId ''heads/'' None None None None filterContains = Rejected e
       \<longrightarrow> list_branches_by_repo localeCompare env repositoryId topN filterContains
             = Throws e) \<and>
      (getRefs gitApi repositoryId ''heads/'' None None (Some True) None filterContains
         = Rejected e
       \<longrightarrow> list_my_branches_by_repo localeCompare env repositoryId topN filterContains
             = Throws e) \<and>
      (getRefs gitApi repositoryId ''heads/'' (Some False) (Some False) None (Some False)
         (Some branchName) = Rejected e
       \<longrightarrow> get_branch_by_name env repositoryId branchName = Throws e) \<and>
      (getPullRequest gitApi repositoryId pullRequestId includeWorkItemRefs = Rejected e
       \<longrightarrow> get_pull_request_by_id env repositoryId pullRequestId includeWorkItemRefs
             = Throws e)"
    by (auto simp: search_commits_def list_pull_requests_by_commits_def
        create_pull_request_comment_def get_branch_by_name_def list_pull_requests_by_repo_def
        list_pull_requests_by_project_def list_pull_requests_by_repo_criteria_def
        list_pull_requests_by_project_criteria_def get_repo_by_name_or_id_def
        list_repos_by_project_def list_pull_request_threads_def
        list_pull_request_thread_comments_def list_branches_by_repo_def
        list_my_branches_by_repo_def get_pull_request_by_id_def
        try_catch_def await_def error_result_def Let_def)
qed

theorem errors_caught_where_guarded_witness:
  "search_commits offline_providers ''P'' ''R'' None None None ''Branch'' 0 10 False False
     = error_result ''Error searching commits: connection refused'' \<and>
   search_commits failing_providers ''P'' ''R'' None None None ''Branch'' 0 10 False False
     = error_result ''Error searching commits: service unavailable'' \<and>
   list_pull_requests_by_commits failing_providers ''P'' ''R'' [''c1''] ''LastMergeCommit''
     = error_result ''Error querying pull requests by commits: service unavailable'' \<and>
   create_pull_request_comment failing_providers ''R'' 5 ''note'' None ''active'' None None None
       None
     = error_result ''Error creating comment: service unavailable'' \<and>
   create_pull_request_comment failing_providers ''R'' 5 ''note'' (Some 7) ''active'' None None
       None None
     = error_result ''Error creating comment: service unavailable'' \<and>
   get_branch_by_name sample_providers ''R'' ''gone''
     = error_result ''Branch gone not found in repository R'' \<and>
   list_pull_requests_by_repo sample_providers ''R'' 100 0 False (Some ''b@x.com'') False ''Active''
     = error_result ''Error finding user with email b@x.com: no such user'' \<and>
   get_repo_by_name_or_id offline_providers ''P'' ''R'' = Throws ''connection refused'' \<and>
   list_pull_request_threads failing_providers ''R'' 5 None None None 100 0 False
     = Throws ''service unavailable'' \<and>
   list_pull_requests_by_repo failing_providers ''R'' 100 0 False None False ''Active''
     = Throws ''service unavailable''"
proof -
  have off: "connectionProvider offline_providers = Rejected ''connection refused''"
    by (simp add: offline_providers_def)
  have conn: "connectionProvider sample_providers = Fulfilled sample_api"
    by (simp add: sample_providers_def)
  have fail: "connectionProvider failing_providers = Fulfilled failing_api"
    by (simp add: failing_providers_def)
  note a = errors_caught_where_guarded [where env = offline_providers
      and e = "''connection refused''" and project = "''P''" and repository = "''R''"
      and fromCommit = None and toCommit = None and v = None and vt = "''Branch''"
      and skip = 0 and topN = 10 and il = False and iw = False
      and repositoryNameOrId = "''R''"]
  note b = errors_caught_where_guarded [where env = sample_providers and gitApi = sample_api
      and e = "''no such user''" and repositoryId = "''R''" and branchName = "''gone''"
      and refs = "[sample_ref ''refs/heads/main'', sample_ref ''refs/heads/dev'',
                   sample_ref ''refs/heads/beta'']"
      and pr_status_name = "''Active''" and status_value = Active
      and created_by_user = "Some ''b@x.com''" and created_by_me = False
      and i_am_reviewer = False and topN = 100 and skip = 0]
  note c = errors_caught_where_guarded [where env = failing_providers and gitApi = failing_api
      and e = "''service unavailable''" and project = "''P''" and repository = "''R''"
      and fromCommit = None and toCommit = None and v = None and vt = "''Branch''"
      and skip = 0 and topN = 10 and il = False and iw = False
      and commits = "[''c1'']" and queryType = "''LastMergeCommit''"
      and repositoryId = "''R''" and pullRequestId = 5 and text_content = "''note''"
      and threadId = None and status = "''active''" and fp = None and lineStart = None
      and lineEnd = None and project_opt = None]
  note d = errors_caught_where_guarded [where env = failing_providers and gitApi = failing_api
      and e = "''service unavailable''"
      and repositoryId = "''R''" and pullRequestId = 5 and text_content = "''note''"
      and threadId = "Some 7" and status = "''active''" and fp = None and lineStart = None
      and lineEnd = None and project_opt = None
      and iteration = None and baseIteration = None and topN = 100 and skip = 0
      and fullResponse = False and created_by_me = False and created_by_user = None
      and i_am_reviewer = False and pr_status_name = "''Active''"
      and searchCriteria = "\<lparr>sc_status = Active, sc_repositoryId = ''R'', sc_creatorId = None,
                              sc_reviewerId = None\<rparr>"]
  have 1: "search_commits offline_providers ''P'' ''R'' None None None ''Branch'' 0 10 False False
     = error_result ''Error searching commits: connection refused''"
    using a off by simp
  have 2: "search_commits failing_providers ''P'' ''R'' None None None ''Branch'' 0 10 False
      False = error_result ''Error searching commits: service unavailable''"
    using c fail by (simp add: failing_api_def)
  have 3: "list_pull_requests_by_commits failing_providers ''P'' ''R'' [''c1'']
      ''LastMergeCommit''
     = error_result ''Error querying pull requests by commits: service unavailable''"
    using c fail by (simp add: failing_api_def)
  have 4: "create_pull_request_comment failing_providers ''R'' 5 ''note'' None ''active'' None
      None None None = error_result ''Error creating comment: service unavailable''"
    using c fail by (simp add: failing_api_def truthy_number_def)
  have 5: "create_pull_request_comment failing_providers ''R'' 5 ''note'' (Some 7) ''active''
      None None None None = error_result ''Error creating comment: service unavailable''"
    using d fail by (simp add: failing_api_def truthy_number_def)
  have 6: "get_branch_by_name sample_providers ''R'' ''gone''
     = error_result ''Branch gone not found in repository R''"
    using b conn by (simp add: sample_api_def sample_ref_def)
  have 7: "list_pull_requests_by_repo sample_providers ''R'' 100 0 False (Some ''b@x.com'') False
      ''Active'' = error_result ''Error finding user with email b@x.com: no such user''"
    using b conn
    by (simp add: pullRequestStatusStringToInt_def truthy_string_def sample_providers_def)
  have 8: "get_repo_by_name_or_id offline_providers ''P'' ''R'' = Throws ''connection refused''"
    using a off by simp
  have 9: "list_pull_request_threads failing_providers ''R'' 5 None None None 100 0 False
     = Throws ''service unavailable''"
    using d fail by (simp add: failing_api_def)
  have 10: "list_pull_requests_by_repo failing_providers ''R'' 100 0 False None False ''Active''
     = Throws ''service unavailable''"
    using d fail
    by (simp add: failing_api_def list_pull_requests_by_repo_criteria_def
        pullRequestStatusStringToInt_def truthy_string_def Let_def)
  show ?thesis using 1 2 3 4 5 6 7 8 9 10 by simp
qed

subsection \<open>Identity filters of the pull request listings\<close>

text \<open>
  C3 does not hold of the code. With \<^verbatim>\<open>created_by_user\<close> given, neither listing comes to the
  branch that serves \<^verbatim>\<open>i_am_reviewer\<close>: for \<^verbatim>\<open>created_by_user = a@x.com\<close> and
  \<^verbatim>\<open>i_am_reviewer = true\<close> the criteria carry the creator id of that user and no reviewer id.
  Without \<^verbatim>\<open>created_by_user\<close>, both flags set give both fields, each the id of the caller.
\<close>

theorem reviewer_flag_dropped_with_explicit_creator:
  "(list_pull_requests_by_repo_criteria sample_providers ''R'' False (Some ''a@x.com'') True
      ''Active'' :: TrimmedPullRequest list option outcome + PullRequestSearchCriteria)
     = Inr \<lparr>sc_status = Active, sc_repositoryId = ''R'', sc_creatorId = Some ''id-a'',
            sc_reviewerId = None\<rparr> \<and>
   (list_pull_requests_by_project_criteria sample_providers False (Some ''a@x.com'') True
      ''Active'' :: TrimmedProjectPullRequest list option outcome + ProjectPullRequestSearchCriteria)
     = Inr \<lparr>psc_status = Active, psc_creatorId = Some ''id-a'', psc_reviewerId = None\<rparr> \<and>
   (list_pull_requests_by_repo_criteria sample_providers ''R'' True None True
      ''Active'' :: TrimmedPullRequest list option outcome + PullRequestSearchCriteria)
     = Inr \<lparr>sc_status = Active, sc_repositoryId = ''R'', sc_creatorId = Some ''id-me'',
            sc_reviewerId = Some ''id-me''\<rparr>"
  by (simp add: list_pull_requests_by_repo_criteria_def list_pull_requests_by_project_criteria_def
      pullRequestStatusStringToInt_def sample_providers_def truthy_string_def Let_def)

text \<open>
  C4, as stated, fails on the empty string: the handlers test \<^verbatim>\<open>created_by_user\<close> for
  truthiness, so a \<^verbatim>\<open>created_by_user\<close> of \<^verbatim>\<open>""\<close> counts as absent, and with \<^verbatim>\<open>created_by_me\<close>
  the creator id that reaches the backend is the id of the caller.
\<close>

theorem empty_created_by_user_is_ignored:
  "(list_pull_requests_by_repo_criteria echo_providers ''R'' True (Some []) False ''Active''
      :: TrimmedPullRequest list option outcome + PullRequestSearchCriteria)
     = Inr \<lparr>sc_status = Active, sc_repositoryId = ''R'', sc_creatorId = Some ''id-me'',
            sc_reviewerId = None\<rparr> \<and>
   list_pull_requests_by_repo echo_providers ''R'' 100 0 True (Some []) False ''Active''
     = json_result (Some [trimPullRequest (echo_pull_request (Some ''id-me'') None)]) \<and>
   list_pull_requests_by_project echo_providers ''P'' 100 0 True (Some []) False ''Active''
     = json_result (Some [trimProjectPullRequest (echo_pull_request (Some ''id-me'') None)])"
  by (simp add: list_pull_requests_by_repo_def list_pull_requests_by_project_def
      list_pull_requests_by_repo_criteria_def list_pull_requests_by_project_criteria_def
      pullRequestStatusStringToInt_def echo_providers_def echo_api_def sample_providers_def
      truthy_string_def await_def Let_def)

text \<open>
  C4, amended. When \<^verbatim>\<open>created_by_user\<close> is given and is not the empty string, the flag
  \<^verbatim>\<open>created_by_me\<close> changes nothing: the criteria and the answer of both listings are the same
  for \<^verbatim>\<open>created_by_me\<close> true and false. When moreover the status is a known one and the lookup
  of the user succeeds, the handler calls the backend with criteria whose creator id is the id
  that the lookup gave, and answers with the trimmed pull requests the backend returns.
\<close>

theorem explicit_creator_takes_precedence:
  assumes "created_by_user = Some user" and "user \<noteq> []"
  shows
  "(list_pull_requests_by_repo_criteria env repositoryId True created_by_user i_am_reviewer status
      :: TrimmedPullRequest list option outcome + PullRequestSearchCriteria)
     = list_pull_requests_by_repo_criteria env repositoryId False created_by_user i_am_reviewer
         status \<and>
   (list_pull_requests_by_project_criteria env True created_by_user i_am_reviewer status
      :: TrimmedProjectPullRequest list option outcome + ProjectPullRequestSearchCriteria)
     = list_pull_requests_by_project_criteria env False created_by_user i_am_reviewer status \<and>
   list_pull_requests_by_repo env repositoryId topN skip True created_by_user i_am_reviewer status
     = list_pull_requests_by_repo env repositoryId topN skip False created_by_user i_am_reviewer
         status \<and>
   list_pull_requests_by_project env project topN skip True created_by_user i_am_reviewer status
     = list_pull_requests_by_project env project topN skip False created_by_user i_am_reviewer
         status \<and>
   (pullRequestStatusStringToInt status = Inr status_value \<and>
    getUserIdFromEmail env user = Fulfilled userId \<longrightarrow>
      (\<exists>searchCriteria.
         (list_pull_requests_by_repo_criteria env repositoryId True created_by_user i_am_reviewer
            status :: TrimmedPullRequest list option outcome + PullRequestSearchCriteria)
           = Inr searchCriteria \<and>
         sc_creatorId searchCriteria = Some userId \<and>
         (connectionProvider env = Fulfilled gitApi \<longrightarrow>
            list_pull_requests_by_repo env repositoryId topN skip True created_by_user
                i_am_reviewer status
              = await (getPullRequests gitApi repositoryId searchCriteria skip topN)
                  (\<lambda>pullRequests. json_result (map_option (map trimPullRequest) pullRequests)))) \<and>
      (\<exists>searchCriteria.
         (list_pull_requests_by_project_criteria env True created_by_user i_am_reviewer status
            :: TrimmedProjectPullRequest list option outcome + ProjectPullRequestSearchCriteria)
           = Inr searchCriteria \<and>
         psc_creatorId searchCriteria = Some userId \<and>
         (connectionProvider env = Fulfilled gitApi \<longrightarrow>
            list_pull_requests_by_project env project topN skip True created_by_user
                i_am_reviewer status
              = await (getPullRequestsByProject gitApi project searchCriteria skip topN)
                  (\<lambda>pullRequests.
                     json_result (map_option (map trimProjectPullRequest) pullRequests)))))"
  using assms
  by (simp add: repo_criteria_explicit_user project_criteria_explicit_user
      list_pull_requests_by_repo_def list_pull_requests_by_project_def await_def)

theorem explicit_creator_takes_precedence_witness:
  "(list_pull_requests_by_repo_criteria echo_providers ''R'' True (Some ''a@x.com'') False
      ''Active'' :: TrimmedPullRequest list option outcome + PullRequestSearchCriteria)
     = Inr \<lparr>sc_status = Active, sc_repositoryId = ''R'', sc_creatorId = Some ''id-a'',
            sc_reviewerId = None\<rparr> \<and>
   list_pull_requests_by_repo echo_providers ''R'' 100 0 True (Some ''a@x.com'') False ''Active''
     = json_result (Some [trimPullRequest (echo_pull_request (Some ''id-a'') None)]) \<and>
   list_pull_requests_by_project echo_providers ''P'' 100 0 True (Some ''a@x.com'') False
       ''Active''
     = json_result (Some [trimProjectPullRequest (echo_pull_request (Some ''id-a'') None)]) \<and>
   list_pull_requests_by_repo echo_providers ''R'' 100 0 True (Some ''a@x.com'') False ''Active''
     = list_pull_requests_by_repo echo_providers ''R'' 100 0 False (Some ''a@x.com'') False
         ''Active''"
  using explicit_creator_takes_precedence [where created_by_user = "Some ''a@x.com''"
      and user = "''a@x.com''" and env = echo_providers and repositoryId = "''R''"
      and i_am_reviewer = False and status = "''Active''" and topN = 100 and skip = 0
      and project = "''P''" and status_value = Active and userId = "''id-a''"
      and gitApi = echo_api]
  by (simp add: list_pull_requests_by_repo_criteria_def list_pull_requests_by_project_criteria_def
      list_pull_requests_by_repo_def list_pull_requests_by_project_def
      pullRequestStatusStringToInt_def echo_providers_def echo_api_def sample_providers_def
      truthy_string_def await_def Let_def)

subsection \<open>Branch listings\<close>

text \<open>
  C5, as stated, fails for a negative \<^verbatim>\<open>top\<close>: \<^verbatim>\<open>slice(0, top)\<close> then counts from the end. On
  the branches main, dev and beta, \<^verbatim>\<open>top = -1\<close> gives the two names main and dev, which is
  more than \<^verbatim>\<open>top\<close> names.
\<close>

theorem negative_top_returns_names:
  "list_branches_by_repo codeCompare sample_providers ''R'' (- 1) None
     = json_result (Some [''main'', ''dev'']) \<and>
   list_my_branches_by_repo codeCompare sample_providers ''R'' (- 1) None
     = json_result (Some [''main'', ''dev''])"
  by (simp add: list_branches_by_repo_def list_my_branches_by_repo_def sample_providers_def
      sample_api_def await_def branchesFilterOutIrrelevantProperties_def sample_ref_def
      truthy_string_def startsWith_def Array_sort_def slice_def relative_index_def Let_def
      find_insertion_point.simps)

text \<open>
  C5, amended. For a collation that is a consistent comparator, \<^verbatim>\<open>list_branches_by_repo\<close> and
  \<^verbatim>\<open>list_my_branches_by_repo\<close> answer with a list of names such that every name, with
  \<^verbatim>\<open>refs/heads/\<close> in front, is the name of a ref the backend returned; the list is in
  descending order of the collation; and for \<^verbatim>\<open>top\<close> not negative it has at most \<^verbatim>\<open>top\<close>
  names. The list is \<^verbatim>\<open>slice(0, top)\<close> of the stable descending sort of the short names of
  the refs under \<^verbatim>\<open>refs/heads/\<close>. On the branches main, dev and beta with \<^verbatim>\<open>top = 2\<close> the
  answer is main, dev.
\<close>

theorem branch_listing:
  assumes "consistent localeCompare UNIV"
    and "connectionProvider env = Fulfilled gitApi"
    and "getRefs gitApi repositoryId ''heads/'' None None mine None filterContains
           = Fulfilled (Some refs)"
  shows "\<exists>out.
     (mine = None \<longrightarrow>
        list_branches_by_repo localeCompare env repositoryId topN filterContains
          = json_result (Some out)) \<and>
     (mine = Some True \<longrightarrow>
        list_my_branches_by_repo localeCompare env repositoryId topN filterContains
          = json_result (Some out)) \<and>
     (\<forall>short\<in>set out. \<exists>branch\<in>set refs. ref_name branch = Some (''refs/heads/'' @ short)) \<and>
     sorted_wrt (\<lambda>a b. localeCompare b a \<le> 0) out \<and>
     (0 \<le> topN \<longrightarrow> int (length out) \<le> topN) \<and>
     out = slice (stable_sort (\<lambda>a b. localeCompare b a) (short_branch_names refs)) 0 topN"
proof -
  let ?names = "map (\<lambda>branch. replace branch ''refs/heads/'' [])
                  (filter (\<lambda>branch. startsWith branch ''refs/heads/'')
                     (concat (map (\<lambda>branch. if truthy_string (ref_name branch)
                                         then [the (ref_name branch)] else []) refs)))"
  let ?sorted = "Array_sort (\<lambda>a b. localeCompare b a) ?names"
  let ?out = "slice ?sorted 0 topN"
  have out: "branchesFilterOutIrrelevantProperties localeCompare (Some refs) topN = Some ?out"
    by (simp add: branchesFilterOutIrrelevantProperties_def)
  have a: "mine = None \<longrightarrow>
        list_branches_by_repo localeCompare env repositoryId topN filterContains
          = json_result (Some ?out)"
  proof
    assume "mine = None"
    then have "getRefs gitApi repositoryId ''heads/'' None None None None filterContains
           = Fulfilled (Some refs)" using assms(3) by simp
    then show "list_branches_by_repo localeCompare env repositoryId topN filterContains
          = json_result (Some ?out)"
      using assms(2) out by (simp add: list_branches_by_repo_def await_def)
  qed
  have b: "mine = Some True \<longrightarrow>
        list_my_branches_by_repo localeCompare env repositoryId topN filterContains
          = json_result (Some ?out)"
  proof
    assume "mine = Some True"
    then have "getRefs gitApi repositoryId ''heads/'' None None (Some True) None filterContains
           = Fulfilled (Some refs)" using assms(3) by simp
    then show "list_my_branches_by_repo localeCompare env repositoryId topN filterContains
          = json_result (Some ?out)"
      using assms(2) out by (simp add: list_my_branches_by_repo_def await_def)
  qed
  have sub: "set ?out \<subseteq> set ?names"
    using set_slice_subset[of ?sorted 0 topN] by (simp only: set_Array_sort)
  have c: "\<forall>short\<in>set ?out. \<exists>branch\<in>set refs.
      ref_name branch = Some (''refs/heads/'' @ short)"
  proof
    fix short assume "short \<in> set ?out"
    then have "short \<in> set ?names" using sub by (rule rev_subsetD)
    then show "\<exists>branch\<in>set refs. ref_name branch = Some (''refs/heads/'' @ short)"
      by (rule branch_names_sound)
  qed
  have con: "consistent (\<lambda>a b. localeCompare b a) UNIV" using assms(1) by (rule consistent_flip)
  have st: "?sorted = stable_sort (\<lambda>a b. localeCompare b a) ?names"
    by (rule Array_sort_stable_sort[OF con]) simp
  then have "sorted_wrt (\<lambda>a b. localeCompare b a \<le> 0) ?sorted"
    using sorted_stable_sort[OF con, of ?names] by simp
  then have d: "sorted_wrt (\<lambda>a b. localeCompare b a \<le> 0) ?out" by (rule sorted_wrt_slice)
  have e: "0 \<le> topN \<longrightarrow> int (length ?out) \<le> topN"
    by (rule impI) (rule length_slice_from_0)
  have f: "?out = slice (stable_sort (\<lambda>a b. localeCompare b a) (short_branch_names refs)) 0 topN"
    unfolding st by (simp only: branch_names_eq_short_branch_names)
  show ?thesis
    by (rule exI[of _ ?out]) (intro conjI a b c d e f)
qed

theorem branch_listing_witness:
  "list_branches_by_repo codeCompare sample_providers ''R'' 2 None
     = json_result (Some [''main'', ''dev'']) \<and>
   list_my_branches_by_repo codeCompare sample_providers ''R'' 2 None
     = json_result (Some [''main'', ''dev'']) \<and>
   sorted_wrt (\<lambda>a b. codeCompare b a \<le> 0) [''main'', ''dev'']"
proof -
  have refs: "getRefs sample_api ''R'' ''heads/'' None None mine None None
      = Fulfilled (Some [sample_ref ''refs/heads/main'', sample_ref ''refs/heads/dev'',
                         sample_ref ''refs/heads/beta''])" for mine
    by (simp add: sample_api_def)
  have conn: "connectionProvider sample_providers = Fulfilled sample_api"
    by (simp add: sample_providers_def)
  have ev: "branchesFilterOutIrrelevantProperties codeCompare
      (Some [sample_ref ''refs/heads/main'', sample_ref ''refs/heads/dev'',
             sample_ref ''refs/heads/beta'']) 2 = Some [''main'', ''dev'']"
    by (simp add: branchesFilterOutIrrelevantProperties_def sample_ref_def truthy_string_def
        startsWith_def Array_sort_def slice_def relative_index_def Let_def
        find_insertion_point.simps)
  have l1: "list_branches_by_repo codeCompare sample_providers ''R'' 2 None
     = json_result (Some [''main'', ''dev''])"
    using conn refs ev by (simp add: list_branches_by_repo_def await_def)
  have l2: "list_my_branches_by_repo codeCompare sample_providers ''R'' 2 None
     = json_result (Some [''main'', ''dev''])"
    using conn refs ev by (simp add: list_my_branches_by_repo_def await_def)
  obtain out where o: "list_branches_by_repo codeCompare sample_providers ''R'' 2 None
          = json_result (Some out)" "sorted_wrt (\<lambda>a b. codeCompare b a \<le> 0) out"
    using branch_listing [OF consistent_codeCompare conn refs, of None 2] by blast
  have "out = [''main'', ''dev'']" using o(1) l1 by (simp add: json_result_def)
  then show ?thesis using l1 l2 o(2) by simp
qed

subsection \<open>The context of a new thread\<close>

text \<open>
  C7, as stated, fails: the context of a new thread has no position on the left side of the
  diff. For \<^verbatim>\<open>filePath = a.ts\<close> and \<^verbatim>\<open>lineStart = 10\<close> the right side spans line 10 to line 10
  and the left side is absent.
\<close>

theorem new_thread_context_right_side_only:
  "t_threadContext (new_thread_data ''note'' ''active'' (Some ''a.ts'') (Some 10) None)
     = Some \<lparr>filePath = Some ''a.ts'', leftFileStart = None, leftFileEnd = None,
             rightFileStart = Some \<lparr>line = Some 10, offset = Some 1\<rparr>,
             rightFileEnd = Some \<lparr>line = Some 10, offset = Some 1\<rparr>\<rparr>"
  by (simp add: new_thread_data_def truthy_string_def truthy_number_def Let_def)

text \<open>
  C7, amended. A new thread carries a context exactly when \<^verbatim>\<open>filePath\<close> is given and not empty
  and \<^verbatim>\<open>lineStart\<close> is given and not 0. The context then holds the file path and, on the right
  side of the diff only, the start at \<^verbatim>\<open>lineStart\<close> and the end at \<^verbatim>\<open>lineEnd\<close>, or at
  \<^verbatim>\<open>lineStart\<close> when \<^verbatim>\<open>lineEnd\<close> is absent or 0, both at offset 1. Without a thread id the
  handler sends this thread to the backend and answers with what the backend created, so a
  \<^verbatim>\<open>filePath\<close> without \<^verbatim>\<open>lineStart\<close> gives a thread with no context and no error.
\<close>

theorem new_thread_context:
  "(t_threadContext (new_thread_data text_content status fp lineStart lineEnd) \<noteq> None)
     = (truthy_string fp \<and> truthy_number lineStart) \<and>
   (truthy_string fp \<and> truthy_number lineStart \<longrightarrow>
      t_threadContext (new_thread_data text_content status fp lineStart lineEnd)
        = Some \<lparr>filePath = fp, leftFileStart = None, leftFileEnd = None,
                rightFileStart = Some \<lparr>line = lineStart, offset = Some 1\<rparr>,
                rightFileEnd =
                  Some \<lparr>line = (if truthy_number lineEnd then lineEnd else lineStart),
                        offset = Some 1\<rparr>\<rparr>) \<and>
   (\<not> truthy_number threadId \<and> connectionProvider env = Fulfilled gitApi \<and>
    createThread gitApi (new_thread_data text_content status fp lineStart lineEnd)
      repositoryId pullRequestId project = Fulfilled created \<longrightarrow>
      create_pull_request_comment env repositoryId pullRequestId text_content threadId status
          fp lineStart lineEnd project
        = json_result
            (Inr \<lparr>ct_id = t_id created, ct_status = t_status created,
                  ct_threadContext = t_threadContext created,
                  ct_comments = trimComments (t_comments created)\<rparr>))"
  by (simp add: new_thread_data_def create_pull_request_comment_def await_def try_catch_def
      json_result_def Let_def)

theorem new_thread_context_witness:
  "t_threadContext (new_thread_data ''note'' ''active'' (Some ''a.ts'') (Some 10) (Some 12))
     = Some \<lparr>filePath = Some ''a.ts'', leftFileStart = None, leftFileEnd = None,
             rightFileStart = Some \<lparr>line = Some 10, offset = Some 1\<rparr>,
             rightFileEnd = Some \<lparr>line = Some 12, offset = Some 1\<rparr>\<rparr> \<and>
   t_threadContext (new_thread_data ''note'' ''active'' (Some ''a.ts'') None None) = None \<and>
   create_pull_request_comment sample_providers ''R'' 5 ''note'' None ''active'' (Some ''a.ts'')
       None None None
     = json_result
         (Inr \<lparr>ct_id = None, ct_status = Some Active_thread, ct_threadContext = None,
               ct_comments = Some [trimComment (new_comment ''note'')]\<rparr>)"
  using new_thread_context [of "''note''" "''active''" "Some ''a.ts''" "Some 10" "Some 12"]
    new_thread_context [of "''note''" "''active''" "Some ''a.ts''" None None None
      sample_providers sample_api "''R''" 5 None
      "new_thread_data ''note'' ''active'' (Some ''a.ts'') None None"]
  by (simp add: truthy_string_def truthy_number_def sample_providers_def sample_api_def
      new_thread_data_def thread_status_key_def toUpperCase_def toUpperCase_char_def charAt0_def
      CommentThreadStatus_of_key_def trimComments_def new_comment_def truthy_boolean_def Let_def)

subsection \<open>The order of repositories\<close>

text \<open>
  C8, as stated, fails on a repository without a name. The comparator answers 0 whenever its
  first repository has no name. On the array b, (no name), a the sort compares the second
  element with the first, which gives 0, and the third with the second, which gives the
  comparison of a with the empty string, a positive number: the array is one ascending run
  and stays as it is. The repository without a name is not first, and b comes before a.
\<close>

theorem unnamed_repository_not_sorted_first:
  "list_repos_by_project codeCompare sample_providers ''P'' 100 0 None
     = json_result (Some [trimRepository (sample_repository ''1'' (Some ''b'')),
                          trimRepository (sample_repository ''2'' None),
                          trimRepository (sample_repository ''3'' (Some ''a''))])"
  by (simp add: list_repos_by_project_def sample_providers_def sample_api_def await_def
      truthy_string_def Array_sort_def compare_repository_names_def sample_repository_def
      slice_def relative_index_def Let_def)

text \<open>
  C8, amended. When every repository that is left after the name filter has a name, and the
  collation is a consistent comparator, \<^verbatim>\<open>list_repos_by_project\<close> answers with the page
  \<^verbatim>\<open>[skip, skip + top)\<close> of the repositories in ascending order of their names, and the order
  is stable: repositories whose names collate equal keep their relative order.
\<close>

theorem repositories_sorted_by_name:
  assumes "consistent localeCompare UNIV"
    and "connectionProvider env = Fulfilled gitApi"
    and "getRepositories gitApi project (Some False) (Some False) (Some False)
           = Fulfilled (Some repositories)"
    and "(if truthy_string repoNameFilter
          then filterReposByName (Some repositories) (the repoNameFilter)
          else Some repositories) = Some candidates"
    and "\<forall>repo\<in>set candidates. r_name repo \<noteq> None"
  shows "\<exists>ordered.
     list_repos_by_project localeCompare env project topN skip repoNameFilter
       = json_result (Some (map trimRepository (slice ordered skip (skip + topN)))) \<and>
     mset ordered = mset candidates \<and>
     sorted_wrt (\<lambda>a b. localeCompare (name_or_empty a) (name_or_empty b) \<le> 0) ordered \<and>
     (\<forall>repo\<in>set candidates.
        filter (\<lambda>other. localeCompare (name_or_empty repo) (name_or_empty other) = 0) ordered
          = filter (\<lambda>other. localeCompare (name_or_empty repo) (name_or_empty other) = 0)
              candidates)"
proof -
  let ?cmp = "compare_repository_names localeCompare"
  let ?S = "{repo. r_name repo \<noteq> None}"
  let ?ordered = "Array_sort ?cmp candidates"
  have con: "consistent ?cmp ?S" using assms(1) by (rule consistent_compare_repository_names)
  have sub: "set candidates \<subseteq> ?S" using assms(5) by blast
  have eq: "?ordered = stable_sort ?cmp candidates" by (rule Array_sort_stable_sort[OF con sub])
  have m: "mset ?ordered = mset candidates" by (rule mset_Array_sort)
  then have sub': "set ?ordered \<subseteq> ?S" using sub by (metis mset_eq_setD)
  have a: "list_repos_by_project localeCompare env project topN skip repoNameFilter
       = json_result (Some (map trimRepository (slice ?ordered skip (skip + topN))))"
    using assms(2,3,4) by (simp add: list_repos_by_project_def await_def Let_def split: if_splits)
  have "sorted_wrt (\<lambda>a b. ?cmp a b \<le> 0) ?ordered"
    unfolding eq by (rule sorted_stable_sort[OF con sub])
  then have s: "sorted_wrt (\<lambda>a b. localeCompare (name_or_empty a) (name_or_empty b) \<le> 0) ?ordered"
    by (rule sorted_wrt_mono_rel[rotated]) (use sub' compare_named_repositories in auto)
  have f: "\<forall>repo\<in>set candidates.
        filter (\<lambda>other. localeCompare (name_or_empty repo) (name_or_empty other) = 0) ?ordered
          = filter (\<lambda>other. localeCompare (name_or_empty repo) (name_or_empty other) = 0)
              candidates"
  proof
    fix repo assume r: "repo \<in> set candidates"
    then have rS: "repo \<in> ?S" using sub by blast
    then have c: "\<And>other. ?cmp repo other = localeCompare (name_or_empty repo) (name_or_empty other)"
      by (simp add: compare_named_repositories)
    have "filter (\<lambda>other. ?cmp repo other = 0) ?ordered = filter (\<lambda>other. ?cmp repo other = 0) candidates"
      unfolding eq by (rule filter_stable_sort[OF con sub rS])
    then show "filter (\<lambda>other. localeCompare (name_or_empty repo) (name_or_empty other) = 0) ?ordered
          = filter (\<lambda>other. localeCompare (name_or_empty repo) (name_or_empty other) = 0)
              candidates"
      by (simp only: c)
  qed
  show ?thesis by (rule exI[of _ ?ordered]) (intro conjI a m s f)
qed

theorem repositories_sorted_by_name_witness:
  "list_repos_by_project codeCompare sample_providers ''Q'' 2 0 None
     = json_result (Some [trimRepository (sample_repository ''3'' (Some ''a'')),
                          trimRepository (sample_repository ''1'' (Some ''b''))]) \<and>
   sorted_wrt (\<lambda>a b. codeCompare (name_or_empty a) (name_or_empty b) \<le> 0)
     [sample_repository ''3'' (Some ''a''), sample_repository ''1'' (Some ''b''),
      sample_repository ''2'' (Some ''c'')]"
proof -
  let ?repos = "[sample_repository ''1'' (Some ''b''), sample_repository ''2'' (Some ''c''),
                 sample_repository ''3'' (Some ''a'')]"
  have conn: "connectionProvider sample_providers = Fulfilled sample_api"
    by (simp add: sample_providers_def)
  have repos: "getRepositories sample_api ''Q'' (Some False) (Some False) (Some False)
           = Fulfilled (Some ?repos)"
    by (simp add: sample_api_def)
  have cand: "(if truthy_string None then filterReposByName (Some ?repos) (the None)
          else Some ?repos) = Some ?repos"
    by (simp add: truthy_string_def)
  have named: "\<forall>repo\<in>set ?repos. r_name repo \<noteq> None"
    by (simp add: sample_repository_def)
  obtain ordered where o:
      "list_repos_by_project codeCompare sample_providers ''Q'' 2 0 None
         = json_result (Some (map trimRepository (slice ordered 0 (0 + 2))))"
      "mset ordered = mset ?repos"
      "sorted_wrt (\<lambda>a b. codeCompare (name_or_empty a) (name_or_empty b) \<le> 0) ordered"
    using repositories_sorted_by_name [OF consistent_codeCompare conn repos cand named, of 2 0]
    by blast
  have ev: "list_repos_by_project codeCompare sample_providers ''Q'' 2 0 None
     = json_result (Some [trimRepository (sample_repository ''3'' (Some ''a'')),
                          trimRepository (sample_repository ''1'' (Some ''b''))])"
    by (simp add: list_repos_by_project_def sample_providers_def sample_api_def await_def
      truthy_string_def Array_sort_def compare_repository_names_def sample_repository_def
      slice_def relative_index_def Let_def find_insertion_point.simps)
  have "sorted_wrt (\<lambda>a b. codeCompare (name_or_empty a) (name_or_empty b) \<le> 0)
     [sample_repository ''3'' (Some ''a''), sample_repository ''1'' (Some ''b''),
      sample_repository ''2'' (Some ''c'')]"
    using o(3) by (simp add: name_or_empty_def sample_repository_def)
  then show ?thesis using ev by simp
qed

subsection \<open>The criteria of a commit search\<close>

text \<open>
  C10, as stated, fails on the empty string: the handler tests \<^verbatim>\<open>version\<close> for truthiness, so
  for a \<^verbatim>\<open>version\<close> of \<^verbatim>\<open>""\<close> the criteria that reach the backend hold no \<^verbatim>\<open>itemVersion\<close>.
\<close>

theorem empty_version_sends_no_item_version:
  "search_commits_criteria None None (Some []) ''Branch'' False False
     = \<lparr>fromCommitId = None, toCommitId = None, includeLinks = Some False,
        includeWorkItems = Some False, itemVersion = None\<rparr> \<and>
   search_commits echo_providers ''P'' ''R'' None None (Some []) ''Branch'' 0 10 False False
     = json_result (Some [\<lparr>commitId = None, commit_comment = None\<rparr>]) \<and>
   search_commits echo_providers ''P'' ''R'' None None (Some ''main'') ''Branch'' 0 10 False False
     = json_result (Some [\<lparr>commitId = Some ''main'', commit_comment = None\<rparr>])"
  by (simp add: search_commits_criteria_def search_commits_def echo_providers_def echo_api_def
      sample_providers_def truthy_string_def try_catch_def await_def json_result_def Let_def)

text \<open>
  C10, amended. \<^verbatim>\<open>search_commits\<close> calls \<^verbatim>\<open>getCommits\<close> with criteria that hold an
  \<^verbatim>\<open>itemVersion\<close> exactly when \<^verbatim>\<open>version\<close> is given and is not the empty string; it is then the
  version with the member of \<^verbatim>\<open>versionType\<close>. Otherwise the criteria are \<^verbatim>\<open>fromCommitId\<close>,
  \<^verbatim>\<open>toCommitId\<close>, \<^verbatim>\<open>includeLinks\<close> and \<^verbatim>\<open>includeWorkItems\<close> alone, and the answer of the tool
  is the same for every \<^verbatim>\<open>versionType\<close>. The tool answers with the commits of that call, or
  with an error-flagged envelope when the call fails.
\<close>

theorem search_commits_item_version:
  "(itemVersion (search_commits_criteria fromCommit toCommit v vt il iw) \<noteq> None)
     = truthy_string v \<and>
   (truthy_string v \<longrightarrow>
      search_commits_criteria fromCommit toCommit v vt il iw
        = \<lparr>fromCommitId = fromCommit, toCommitId = toCommit, includeLinks = Some il,
           includeWorkItems = Some iw,
           itemVersion = Some \<lparr>version = v, versionType = GitVersionType_of_key vt\<rparr>\<rparr>) \<and>
   (\<not> truthy_string v \<longrightarrow>
      search_commits_criteria fromCommit toCommit v vt il iw
        = \<lparr>fromCommitId = fromCommit, toCommitId = toCommit, includeLinks = Some il,
           includeWorkItems = Some iw, itemVersion = None\<rparr> \<and>
      search_commits env project repository fromCommit toCommit v vt skip topN il iw
        = search_commits env project repository fromCommit toCommit v ''Branch'' skip topN il iw) \<and>
   (connectionProvider env = Fulfilled gitApi \<longrightarrow>
      search_commits env project repository fromCommit toCommit v vt skip topN il iw
        = (case getCommits gitApi repository
                  \<lparr>fromCommitId = fromCommit, toCommitId = toCommit, includeLinks = Some il,
                   includeWorkItems = Some iw,
                   itemVersion =
                     (if truthy_string v
                      then Some \<lparr>version = v, versionType = GitVersionType_of_key vt\<rparr>
                      else None)\<rparr>
                  project skip topN of
             Rejected e \<Rightarrow> error_result (''Error searching commits: '' @ e)
           | Fulfilled commits \<Rightarrow> json_result commits))"
  by (simp add: search_commits_criteria_def search_commits_def try_catch_def await_def
      json_result_def Let_def split: settled.splits)

theorem search_commits_item_version_witness:
  "search_commits_criteria (Some ''c1'') None (Some ''main'') ''Tag'' False True
     = \<lparr>fromCommitId = Some ''c1'', toCommitId = None, includeLinks = Some False,
        includeWorkItems = Some True,
        itemVersion = Some \<lparr>version = Some ''main'', versionType = Some Tag\<rparr>\<rparr> \<and>
   search_commits_criteria (Some ''c1'') None None ''Tag'' False True
     = \<lparr>fromCommitId = Some ''c1'', toCommitId = None, includeLinks = Some False,
        includeWorkItems = Some True, itemVersion = None\<rparr> \<and>
   search_commits echo_providers ''P'' ''R'' (Some ''c1'') None None ''Tag'' 0 10 False True
     = search_commits echo_providers ''P'' ''R'' (Some ''c1'') None None ''Branch'' 0 10 False True \<and>
   search_commits echo_providers ''P'' ''R'' (Some ''c1'') None (Some ''main'') ''Tag'' 0 10 False
       True
     = json_result (Some [\<lparr>commitId = Some ''main'', commit_comment = None\<rparr>]) \<and>
   search_commits echo_providers ''P'' ''R'' (Some ''c1'') None None ''Tag'' 0 10 False True
     = json_result (Some [\<lparr>commitId = None, commit_comment = None\<rparr>])"
proof -
  have conn: "connectionProvider echo_providers = Fulfilled echo_api"
    by (simp add: echo_providers_def)
  note given = search_commits_item_version [where fromCommit = "Some ''c1''" and toCommit = None
      and v = "Some ''main''" and vt = "''Tag''" and il = False and iw = True
      and env = echo_providers and gitApi = echo_api and project = "''P''"
      and repository = "''R''" and skip = 0 and topN = 10]
  note absent = search_commits_item_version [where fromCommit = "Some ''c1''" and toCommit = None
      and v = None and vt = "''Tag''" and il = False and iw = True
      and env = echo_providers and gitApi = echo_api and project = "''P''"
      and repository = "''R''" and skip = 0 and topN = 10]
  have key: "GitVersionType_of_key ''Tag'' = Some Tag"
    by (simp add: GitVersionType_of_key_def)
  have c1: "search_commits_criteria (Some ''c1'') None (Some ''main'') ''Tag'' False True
     = \<lparr>fromCommitId = Some ''c1'', toCommitId = None, includeLinks = Some False,
        includeWorkItems = Some True,
        itemVersion = Some \<lparr>version = Some ''main'', versionType = Some Tag\<rparr>\<rparr>"
    using given key by (simp add: truthy_string_def)
  have c2: "search_commits_criteria (Some ''c1'') None None ''Tag'' False True
     = \<lparr>fromCommitId = Some ''c1'', toCommitId = None, includeLinks = Some False,
        includeWorkItems = Some True, itemVersion = None\<rparr>"
    using absent by (simp add: truthy_string_def)
  have c3: "search_commits echo_providers ''P'' ''R'' (Some ''c1'') None None ''Tag'' 0 10 False
       True
     = search_commits echo_providers ''P'' ''R'' (Some ''c1'') None None ''Branch'' 0 10 False
         True"
    using absent by (simp add: truthy_string_def)
  have c4: "search_commits echo_providers ''P'' ''R'' (Some ''c1'') None (Some ''main'') ''Tag''
       0 10 False True
     = json_result (Some [\<lparr>commitId = Some ''main'', commit_comment = None\<rparr>])"
    using given conn key by (simp add: truthy_string_def echo_api_def)
  have c5: "search_commits echo_providers ''P'' ''R'' (Some ''c1'') None None ''Tag'' 0 10 False
       True
     = json_result (Some [\<lparr>commitId = None, commit_comment = None\<rparr>])"
    using absent [THEN conjunct2, THEN conjunct2, THEN conjunct2] conn
    by (simp add: truthy_string_def echo_api_def)
  show ?thesis by (intro conjI c1 c2 c3 c4 c5)
qed

end
